theory Spec2Isabelle
  imports Main
begin

section \<open>Python strings and values\<close>

text \<open>
  Python text is modelled as \<^typ>\<open>string\<close>, standing for ASCII text: case mapping acts on
  the ASCII letters and leaves every other character as it is, a decimal digit is one of
  \<open>0\<close> to \<open>9\<close>, and the white space that \<open>int\<close> skips is the space, the characters
  \<open>\t\<close>, \<open>\n\<close>, \<open>\v\<close>, \<open>\f\<close> and \<open>\r\<close>, and the code points 133 and 160.
  Python integers are unbounded (\<^typ>\<open>int\<close>, or \<^typ>\<open>nat\<close> where the source only ever holds a
  non-negative value). The limits of the interpreter are not modelled: the configurable
  bound on the number of digits that \<open>int\<close> converts, the bound on the argument of
  \<open>time.sleep\<close>, the recursion limit.
\<close>

definition is_digit :: "char \<Rightarrow> bool" where
  "is_digit c = (let n = (of_char c :: nat) in 48 \<le> n \<and> n \<le> 57)"

definition digit_val :: "char \<Rightarrow> nat" where
  "digit_val c = (of_char c :: nat) - 48"

definition digit_char :: "nat \<Rightarrow> char" where
  "digit_char d = char_of (48 + d)"

definition is_space :: "char \<Rightarrow> bool" where
  "is_space c = (let n = (of_char c :: nat) in (9 \<le> n \<and> n \<le> 13) \<or> n = 32 \<or> n = 133 \<or> n = 160)"

definition lower_char :: "char \<Rightarrow> char" where
  "lower_char c = (let n = (of_char c :: nat) in if 65 \<le> n \<and> n \<le> 90 then char_of (n + 32) else c)"

definition upper_char :: "char \<Rightarrow> char" where
  "upper_char c = (let n = (of_char c :: nat) in if 97 \<le> n \<and> n \<le> 122 then char_of (n - 32) else c)"

text \<open>\<open>s.lower()\<close> and \<open>s.upper()\<close>.\<close>

definition lower :: "string \<Rightarrow> string" where
  "lower s = map lower_char s"

definition upper :: "string \<Rightarrow> string" where
  "upper s = map upper_char s"

text \<open>The argument of \<open>int\<close> without the white space around the number.\<close>

definition strip :: "string \<Rightarrow> string" where
  "strip s = rev (dropWhile is_space (rev (dropWhile is_space s)))"

text \<open>
  The digits of a decimal literal after its first digit: a single underscore may stand
  between two digits. \<open>None\<close> is \<open>ValueError\<close>.
\<close>

fun parse_digits :: "nat \<Rightarrow> string \<Rightarrow> nat option" where
  "parse_digits acc [] = Some acc"
| "parse_digits acc [c] = (if is_digit c then Some (10 * acc + digit_val c) else None)"
| "parse_digits acc (c # d # cs) =
     (if is_digit c then parse_digits (10 * acc + digit_val c) (d # cs)
      else if c = CHR ''_'' \<and> is_digit d then parse_digits (10 * acc + digit_val d) cs
      else None)"

definition parse_nat :: "string \<Rightarrow> nat option" where
  "parse_nat s = (case s of [] \<Rightarrow> None
                  | c # cs \<Rightarrow> if is_digit c then parse_digits (digit_val c) cs else None)"

text \<open>\<open>int(s)\<close> for a string \<open>s\<close>, base ten: \<open>None\<close> is \<open>ValueError\<close>.\<close>

definition int_of_str :: "string \<Rightarrow> int option" where
  "int_of_str s =
     (case strip s of
        [] \<Rightarrow> None
      | c # cs \<Rightarrow>
          if c = CHR ''-'' then map_option (\<lambda>n. - int n) (parse_nat cs)
          else if c = CHR ''+'' then map_option int (parse_nat cs)
          else map_option int (parse_nat (c # cs)))"

text \<open>\<open>str(n)\<close> for an integer, as an f-string formats it.\<close>

fun str_of_nat :: "nat \<Rightarrow> string" where
  "str_of_nat n = (if n < 10 then [digit_char n] else str_of_nat (n div 10) @ [digit_char (n mod 10)])"

declare str_of_nat.simps [simp del]

definition str_of_int :: "int \<Rightarrow> string" where
  "str_of_int i = (if i < 0 then CHR ''-'' # str_of_nat (nat (- i)) else str_of_nat (nat i))"

text \<open>
  The values a request property can hold: \<open>None\<close>, a boolean, an integer or a string
  (the repository's tests pass booleans and strings).
\<close>

datatype pyval = PNone | PBool bool | PInt int | PStr string

text \<open>Truthiness, as \<open>or\<close> and \<open>if\<close> read it.\<close>

fun truthy :: "pyval \<Rightarrow> bool" where
  "truthy PNone = False"
| "truthy (PBool b) = b"
| "truthy (PInt i) = (i \<noteq> 0)"
| "truthy (PStr s) = (s \<noteq> [])"

definition py_or :: "pyval \<Rightarrow> pyval \<Rightarrow> pyval" where
  "py_or a b = (if truthy a then a else b)"

fun py_str :: "pyval \<Rightarrow> string" where
  "py_str PNone = ''None''"
| "py_str (PBool b) = (if b then ''True'' else ''False'')"
| "py_str (PInt i) = str_of_int i"
| "py_str (PStr s) = s"

text \<open>\<open>int(v)\<close>: \<open>None\<close> is the exception (\<open>TypeError\<close> or \<open>ValueError\<close>).\<close>

fun py_int :: "pyval \<Rightarrow> int option" where
  "py_int PNone = None"
| "py_int (PBool b) = Some (if b then 1 else 0)"
| "py_int (PInt i) = Some i"
| "py_int (PStr s) = int_of_str s"

section \<open>The file-listing transform (maltego\_trx.py)\<close>

subsection \<open>The request and the traversal settings\<close>

text \<open>
  The request object as \<open>_get_req_param\<close> probes it: the two accessor methods, each absent
  (\<open>None\<close>) or a function that returns a value or raises (\<open>None\<close> as its result), and the
  three attributes, each absent or not a dictionary (\<open>None\<close>) or a dictionary.
\<close>

record request =
  Value :: string
  getProperty :: "(string \<Rightarrow> pyval option) option"
  getPropertyValue :: "(string \<Rightarrow> pyval option) option"
  Properties :: "(string \<rightharpoonup> pyval) option"
  Fields :: "(string \<rightharpoonup> pyval) option"
  params :: "(string \<rightharpoonup> pyval) option"

text \<open>One \<open>try: if hasattr(...): v = method(name); if v is not None: return v\<close> block.\<close>

definition try_accessor :: "(string \<Rightarrow> pyval option) option \<Rightarrow> string \<Rightarrow> pyval option" where
  "try_accessor m name =
     (case m of
        None \<Rightarrow> None
      | Some f \<Rightarrow> (case f name of
                     None \<Rightarrow> None
                   | Some v \<Rightarrow> if v \<noteq> PNone then Some v else None))"

text \<open>The loop over the attribute dictionaries: the first one that has the key decides.\<close>

fun attr_dicts :: "(string \<rightharpoonup> pyval) option list \<Rightarrow> string \<Rightarrow> pyval" where
  "attr_dicts [] name = PNone"
| "attr_dicts (None # ds) name = attr_dicts ds name"
| "attr_dicts (Some d # ds) name =
     (case d name of Some v \<Rightarrow> v | None \<Rightarrow> attr_dicts ds name)"

definition get_req_param :: "request \<Rightarrow> string \<Rightarrow> pyval" where
  "get_req_param request name =
     (case try_accessor (getProperty request) name of
        Some v \<Rightarrow> v
      | None \<Rightarrow>
         (case try_accessor (getPropertyValue request) name of
            Some v \<Rightarrow> v
          | None \<Rightarrow> attr_dicts [Properties request, Fields request, params request] name))"

definition flag_on :: "string \<Rightarrow> bool" where
  "flag_on s = (lower s \<in> set [''1'', ''true'', ''yes''])"

text \<open>Lines 53 to 61: the recursion flag.\<close>

definition resolve_recursive :: "request \<Rightarrow> (string \<rightharpoonup> string) \<Rightarrow> bool" where
  "resolve_recursive request environ =
     (let env_recursive = flag_on (case environ ''LISTFILES_RECURSIVE'' of None \<Rightarrow> ''1'' | Some s \<Rightarrow> s);
          req_recursive = get_req_param request ''recursive''
      in if req_recursive \<noteq> PNone then flag_on (py_str req_recursive) else env_recursive)"

text \<open>Line 57: \<open>_get_req_param('max_depth') or _get_req_param('maxdepth')\<close>.\<close>

definition req_maxdepth :: "request \<Rightarrow> pyval" where
  "req_maxdepth request = py_or (get_req_param request ''max_depth'') (get_req_param request ''maxdepth'')"

text \<open>Lines 63 to 73: the depth limit, \<open>None\<close> for unlimited.\<close>

definition resolve_max_depth :: "request \<Rightarrow> (string \<rightharpoonup> string) \<Rightarrow> int option" where
  "resolve_max_depth request environ =
     (let env_maxdepth = environ ''LISTFILES_MAXDEPTH''
      in if req_maxdepth request \<noteq> PNone then py_int (req_maxdepth request)
         else (case env_maxdepth of Some s \<Rightarrow> int_of_str s | None \<Rightarrow> None))"

subsection \<open>The directory tree\<close>

text \<open>
  An \<open>OSError\<close> with its text; \<open>PermissionError\<close> is the subclass the source handles first.
\<close>

datatype oserror = PermissionError string | OSError string

fun err_text :: "oserror \<Rightarrow> string" where
  "err_text (PermissionError t) = t"
| "err_text (OSError t) = t"

text \<open>
  What a path names. A directory
  carries its entries in the order \<open>os.scandir\<close> yields them and, when listing it fails, the
  number of entries yielded before the error and the error (\<open>0\<close> entries when the directory
  cannot be opened). An entry carries its name, the error its type query raises, if any,
  and what it names. A symbolic link carries its target, \<open>None\<close> when it dangles.
  \<open>Special\<close> is a socket, a device or a pipe.
\<close>

datatype node =
    File
  | Dir "dirent list" "(nat \<times> oserror) option"
  | Symlink "node option"
  | Special
and dirent = Entry string "oserror option" node

text \<open>What \<open>os.path.exists\<close>, \<open>os.path.isdir\<close> and \<open>os.scandir\<close> see: links are followed.\<close>

fun follow :: "node \<Rightarrow> node option" where
  "follow (Symlink None) = None"
| "follow (Symlink (Some t)) = follow t"
| "follow n = Some n"

text \<open>\<open>entry.path\<close>: the scanned path and the entry's name, with a separator between them
  unless the path ends in one.\<close>

definition entry_path :: "string \<Rightarrow> string \<Rightarrow> string" where
  "entry_path path name = (if path \<noteq> [] \<and> last path \<noteq> CHR ''/'' then path @ ''/'' @ name else path @ name)"

text \<open>The entries the iteration of \<open>os.scandir\<close> reaches.\<close>

definition listed :: "dirent list \<Rightarrow> (nat \<times> oserror) option \<Rightarrow> dirent list" where
  "listed ents fault = (case fault of None \<Rightarrow> ents | Some (k, e) \<Rightarrow> take k ents)"

subsection \<open>The walk\<close>

datatype msgtype = Inform | PartialError

text \<open>
  \<open>iter_files\<close> is a generator whose consumer runs between its yields, and both add messages to
  the response. The model lists what the generator does in order: a file it yields with
  its depth, or a message it adds.
\<close>

datatype event = Found string nat | Note string

record settings =
  recursive :: bool
  max_depth :: "int option"

definition may_descend :: "settings \<Rightarrow> nat \<Rightarrow> bool" where
  "may_descend cfg cur_depth =
     (recursive cfg \<and> (case max_depth cfg of None \<Rightarrow> True | Some m \<Rightarrow> int cur_depth < m))"

definition entry_error :: "string \<Rightarrow> oserror \<Rightarrow> string" where
  "entry_error p e =
     (case e of PermissionError t \<Rightarrow> ''Permission denied for '' @ p
              | OSError t \<Rightarrow> ''Error processing '' @ p @ '': '' @ t)"

definition listing_error :: "string \<Rightarrow> oserror \<Rightarrow> string" where
  "listing_error path e =
     (case e of PermissionError t \<Rightarrow> ''Permission Denied: '' @ path
              | OSError t \<Rightarrow> ''Error listing directory '' @ path @ '': '' @ t)"

text \<open>
  \<open>iter_files path cur_depth\<close> on a directory, and \<open>scan\<close>, its \<open>for entry in it\<close> loop.
  \<open>is_file\<close> and \<open>is_dir\<close> are asked with \<open>follow_symlinks=False\<close>: they are true of a \<open>File\<close>
  and of a \<open>Dir\<close> entry only.
\<close>

function iter_files :: "settings \<Rightarrow> string \<Rightarrow> nat \<Rightarrow> dirent list \<Rightarrow> (nat \<times> oserror) option \<Rightarrow> event list"
  and scan :: "settings \<Rightarrow> string \<Rightarrow> nat \<Rightarrow> dirent list \<Rightarrow> event list"
where
  "iter_files cfg path cur_depth ents fault =
     scan cfg path cur_depth (listed ents fault)
     @ (case fault of None \<Rightarrow> [] | Some (k, e) \<Rightarrow> [Note (listing_error path e)])"
| "scan cfg path cur_depth [] = []"
| "scan cfg path cur_depth (Entry name terr n # rest) =
     (case terr of
        Some e \<Rightarrow> [Note (entry_error (entry_path path name) e)]
      | None \<Rightarrow>
         (case n of
            File \<Rightarrow> [Found (entry_path path name) cur_depth]
          | Dir sub sfault \<Rightarrow>
              if may_descend cfg cur_depth
              then iter_files cfg (entry_path path name) (cur_depth + 1) sub sfault
              else []
          | _ \<Rightarrow> []))
     @ scan cfg path cur_depth rest"
  by pat_completeness auto

termination
proof (relation "measure (\<lambda>x. case x of
          Inl (cfg, path, d, ents, fault) \<Rightarrow> 2 * size_list size ents + 1
        | Inr (cfg, path, d, ents) \<Rightarrow> 2 * size_list size ents)", goal_cases)
  case 1
  then show ?case by simp
next
  case (2 cfg path cur_depth ents fault)
  have take_le: "size_list f (take k xs) \<le> size_list f xs" for f :: "dirent \<Rightarrow> nat" and k xs
  proof (induction xs arbitrary: k)
    case Nil
    then show ?case by simp
  next
    case (Cons x xs)
    then show ?case by (cases k) (simp_all add: le_SucI)
  qed
  have "size_list size (listed ents fault) \<le> size_list size ents"
    by (cases fault) (auto simp: listed_def take_le)
  then show ?case by simp
next
  case (3 cfg path cur_depth name terr n rest x21 x22)
  then show ?case by simp
next
  case (4 cfg path cur_depth name terr n rest)
  then show ?case by simp
qed

subsection \<open>The transform\<close>

text \<open>
  What the transform asks of the operating system: the environment, what a path names
  (\<open>None\<close> when nothing), \<open>os.path.getsize\<close>, \<open>os.path.dirname\<close> and \<open>os.path.relpath\<close>
  (\<open>None\<close> when it raises).
\<close>

record world =
  environ :: "string \<rightharpoonup> string"
  stat :: "string \<Rightarrow> node option"
  getsize :: "string \<Rightarrow> oserror + nat"
  dirname :: "string \<Rightarrow> string"
  relpath :: "string \<Rightarrow> string \<Rightarrow> string option"

definition path_target :: "world \<Rightarrow> string \<Rightarrow> node option" where
  "path_target w p = (case stat w p of None \<Rightarrow> None | Some n \<Rightarrow> follow n)"

definition path_exists :: "world \<Rightarrow> string \<Rightarrow> bool" where
  "path_exists w p = (path_target w p \<noteq> None)"

definition path_isdir :: "world \<Rightarrow> string \<Rightarrow> bool" where
  "path_isdir w p = (case path_target w p of Some (Dir ents fault) \<Rightarrow> True | _ \<Rightarrow> False)"

text \<open>
  The response object, after the \<open>MockResponse\<close> of the repository's tests: \<open>addEntity\<close>,
  \<open>addProperty\<close> and \<open>addUIMessage\<close> append and do not raise, so the handler of line 118 is
  never entered. A message without a \<open>messageType\<close> is an informational one.
\<close>

record entity =
  entityType :: string
  evalue :: string
  properties :: "(string \<times> string \<times> string \<times> pyval) list"

record response =
  entities :: "entity list"
  messages :: "(string \<times> msgtype) list"

definition addUIMessage :: "string \<Rightarrow> msgtype \<Rightarrow> response \<Rightarrow> response" where
  "addUIMessage m t resp = resp\<lparr>messages := messages resp @ [(m, t)]\<rparr>"

text \<open>The entity that the body of the loop of lines 96 to 119 builds for one yielded file.\<close>

definition file_entity :: "world \<Rightarrow> string \<Rightarrow> string \<Rightarrow> nat \<Rightarrow> entity" where
  "file_entity w folder_path fp depth =
     (let rel = (case relpath w fp folder_path of Some r \<Rightarrow> r | None \<Rightarrow> fp)
      in \<lparr>entityType = ''maltego.File'', evalue = fp,
          properties =
            [(''path'', ''Path'', ''strict'', PStr fp),
             (''depth'', ''Depth'', ''strict'', PInt (int depth)),
             (''parent'', ''Parent'', ''strict'', PStr (dirname w fp)),
             (''relative_path'', ''Relative Path'', ''strict'', PStr rel)]
            @ (case getsize w fp of
                 Inr sz \<Rightarrow> [(''filesize'', ''File Size'', ''loose'', PStr (str_of_nat sz))]
               | Inl e \<Rightarrow> [])\<rparr>)"

text \<open>The body of that loop: the entity, the message when the size cannot be read, the count.\<close>

definition add_file :: "world \<Rightarrow> string \<Rightarrow> string \<Rightarrow> nat \<Rightarrow> response \<times> nat \<Rightarrow> response \<times> nat" where
  "add_file w folder_path fp depth st =
     (let resp = (fst st)\<lparr>entities := entities (fst st) @ [file_entity w folder_path fp depth]\<rparr>
      in case getsize w fp of
           Inr sz \<Rightarrow> (resp, snd st + 1)
         | Inl e \<Rightarrow>
             (addUIMessage (''Could not read size for '' @ fp @ '': '' @ err_text e) PartialError resp,
              snd st + 1))"

fun consume :: "world \<Rightarrow> string \<Rightarrow> response \<times> nat \<Rightarrow> event list \<Rightarrow> response \<times> nat" where
  "consume w folder_path st [] = st"
| "consume w folder_path st (Found fp depth # evs) =
     consume w folder_path (add_file w folder_path fp depth st) evs"
| "consume w folder_path st (Note m # evs) =
     consume w folder_path (addUIMessage m PartialError (fst st), snd st) evs"

text \<open>Lines 121 to 125: the closing message.\<close>

definition summary :: "settings \<Rightarrow> string \<Rightarrow> nat \<Rightarrow> string" where
  "summary cfg folder_path added =
     ''Added '' @ str_of_nat added @ '' file(s) from '' @ folder_path
     @ (if recursive cfg
        then '' (recursive)'' @ (case max_depth cfg of None \<Rightarrow> [] | Some m \<Rightarrow> '', max_depth='' @ str_of_int m)
        else [])"

definition resolve_settings :: "world \<Rightarrow> request \<Rightarrow> settings" where
  "resolve_settings w request =
     \<lparr>recursive = resolve_recursive request (environ w),
      max_depth = resolve_max_depth request (environ w)\<rparr>"

text \<open>
  \<open>create_entities\<close>. Past the two checks the path names a directory, whose entries
  \<open>os.scandir\<close> lists; the last branch of the case is never reached.
\<close>

definition create_entities :: "world \<Rightarrow> request \<Rightarrow> response \<Rightarrow> response" where
  "create_entities w request resp =
     (let folder_path = Value request in
      if \<not> path_exists w folder_path
      then addUIMessage (''Path not found: '' @ folder_path) PartialError resp
      else if \<not> path_isdir w folder_path
      then addUIMessage ''Input is not a directory.'' PartialError resp
      else
        (case path_target w folder_path of
           Some (Dir ents fault) \<Rightarrow>
             (let cfg = resolve_settings w request;
                  st = consume w folder_path (resp, 0) (iter_files cfg folder_path 0 ents fault)
              in addUIMessage (summary cfg folder_path (snd st)) Inform (fst st))
         | _ \<Rightarrow> resp))"

subsection \<open>Notions the statements about the transform use\<close>

text \<open>The files a run of the generator yields, in order.\<close>

fun founds :: "event list \<Rightarrow> (string \<times> nat) list" where
  "founds [] = []"
| "founds (Found fp depth # evs) = (fp, depth) # founds evs"
| "founds (Note m # evs) = founds evs"

text \<open>The paths of the regular files that are direct children of a directory.\<close>

fun child_files :: "string \<Rightarrow> dirent list \<Rightarrow> string list" where
  "child_files path [] = []"
| "child_files path (Entry name terr File # rest) = entry_path path name # child_files path rest"
| "child_files path (Entry name terr n # rest) = child_files path rest"

text \<open>Those of them whose type query raises nothing.\<close>

fun seen_files :: "string \<Rightarrow> dirent list \<Rightarrow> string list" where
  "seen_files path [] = []"
| "seen_files path (Entry name None File # rest) = entry_path path name # seen_files path rest"
| "seen_files path (Entry name terr n # rest) = seen_files path rest"

fun entry_fault :: "dirent \<Rightarrow> oserror option" where
  "entry_fault (Entry name terr n) = terr"

text \<open>Listing the directory raises nothing: neither the iteration nor a type query.\<close>

definition listing_ok :: "dirent list \<Rightarrow> (nat \<times> oserror) option \<Rightarrow> bool" where
  "listing_ok ents fault = (fault = None \<and> list_all (\<lambda>e. entry_fault e = None) ents)"

text \<open>The tree with every symbolic link cut from its target, at every depth.\<close>

fun unlink :: "node \<Rightarrow> node"
  and unlink_entry :: "dirent \<Rightarrow> dirent"
where
  "unlink File = File"
| "unlink (Dir ents fault) = Dir (map unlink_entry ents) fault"
| "unlink (Symlink t) = Symlink None"
| "unlink Special = Special"
| "unlink_entry (Entry name terr n) = Entry name terr (unlink n)"

section \<open>The mailbox report (email\_report.py)\<close>

subsection \<open>Account discovery\<close>

text \<open>\<open>os.environ\<close>: the variables in the order \<open>keys()\<close> gives them, looked up by name.\<close>

type_synonym environment = "(string \<times> string) list"

definition env_get :: "environment \<Rightarrow> string \<Rightarrow> string \<Rightarrow> string" where
  "env_get env k dflt = (case map_of env k of None \<Rightarrow> dflt | Some v \<Rightarrow> v)"

text \<open>
  \<open>account_pattern.match(key)\<close> for \<open>^ACCOUNT_(\d+)_EMAIL$\<close>, giving \<open>match.group(1)\<close>: the
  digits are taken greedily, and \<open>$\<close> also matches before a final line feed.
\<close>

definition account_pattern :: "string \<Rightarrow> string option" where
  "account_pattern key =
     (if take 8 key = ''ACCOUNT_''
      then (let rest = drop 8 key; ds = takeWhile is_digit rest; tl = dropWhile is_digit rest
            in if ds \<noteq> [] \<and> (tl = ''_EMAIL'' \<or> tl = ''_EMAIL'' @ [CHR 0x0A]) then Some ds else None)
      else None)"

text \<open>
  Lines 46 to 50: the numbers of the matching keys, \<open>None\<close> when \<open>int\<close> raises.
\<close>

fun account_numbers :: "string list \<Rightarrow> int list option" where
  "account_numbers [] = Some []"
| "account_numbers (key # keys) =
     (case account_pattern key of
        None \<Rightarrow> account_numbers keys
      | Some ds \<Rightarrow>
         (case int_of_str ds of
            None \<Rightarrow> None
          | Some n \<Rightarrow> map_option ((#) n) (account_numbers keys)))"

text \<open>
  An account configuration is a dictionary of strings. \<open>discover_accounts\<close> builds it with
  four keys; the dictionaries that the repository's tests hand to \<open>fetch_from_account\<close>
  leave \<open>protocol\<close> out.
\<close>

type_synonym account = "string \<rightharpoonup> string"

definition account_key :: "int \<Rightarrow> string \<Rightarrow> string" where
  "account_key num field = ''ACCOUNT_'' @ str_of_int num @ ''_'' @ field"

text \<open>Lines 54 to 72: the body of the loop over the sorted numbers.\<close>

definition build_account :: "environment \<Rightarrow> int \<Rightarrow> account list" where
  "build_account env num =
     (let email_addr = map_of env (account_key num ''EMAIL'');
          pwd = env_get env (account_key num ''PASS'') [];
          proto = upper (env_get env (account_key num ''PROTOCOL'') ''IMAP'');
          default_server = (if proto = ''POP3'' then ''pop.gmail.com'' else ''imap.gmail.com'');
          srv = env_get env (account_key num ''SERVER'') default_server
      in case email_addr of
           None \<Rightarrow> []
         | Some addr \<Rightarrow>
             if addr \<noteq> []
             then [[''email'' \<mapsto> addr, ''password'' \<mapsto> pwd, ''server'' \<mapsto> srv, ''protocol'' \<mapsto> proto]]
             else [])"

text \<open>\<open>discover_accounts()\<close>; \<open>None\<close> when it raises. \<open>sorted\<close> of a set has no duplicates.\<close>

definition discover_accounts :: "environment \<Rightarrow> account list option" where
  "discover_accounts env =
     map_option (\<lambda>nums. concat (map (build_account env) (sort (remdups nums))))
       (account_numbers (map fst env))"

subsection \<open>Fetching one account\<close>

text \<open>
  The exceptions of the report script: those that the mail libraries, the report writer
  and the parsers raise, and \<open>KeyError\<close> from a dictionary. All of them derive from
  \<open>Exception\<close>, so that a handler \<open>except Exception\<close> takes whatever the handlers before it
  left; \<open>OtherException\<close> is any class that the source does not name.
\<close>

datatype exn = IMAP4_error | error_proto | TimeoutError | SMTPAuthenticationError | KeyError | OtherException

text \<open>\<open>d[key]\<close>.\<close>

definition subscript :: "(string \<rightharpoonup> string) \<Rightarrow> string \<Rightarrow> exn + string" where
  "subscript d key = (case d key of None \<Rightarrow> Inl KeyError | Some v \<Rightarrow> Inr v)"

text \<open>
  What the program does to the outside, in order. Log lines are left out: they influence
  nothing.
\<close>

datatype effect =
    MailConnect string
  | Sleep nat
  | ExcelWrite string
  | CsvWrite string
  | SmtpSend nat

text \<open>
  A \<open>datetime\<close>: its wall-clock reading in microseconds since the first instant of year 1,
  and, when it carries a zone, the offset of that zone east of UTC in microseconds.
\<close>

record datetime =
  wall :: int
  tzinfo :: "int option"

text \<open>
  The library functions the fetch path calls on message text: what the \<open>try\<close> block of
  \<open>decode_email_header\<close> computes from a header (the decoded parts joined, or the exception
  raised on the way), and \<open>email.utils.parsedate_to_datetime\<close>.
\<close>

record maillib =
  decode_header :: "string \<Rightarrow> exn + string"
  parsedate_to_datetime :: "string \<Rightarrow> exn + datetime"

definition decode_email_header :: "maillib \<Rightarrow> string option \<Rightarrow> string" where
  "decode_email_header L header_value =
     (case header_value of
        None \<Rightarrow> ''No Subject''
      | Some h \<Rightarrow>
          if h = [] then ''No Subject''
          else (case decode_header L h of Inr decoded_str \<Rightarrow> decoded_str | Inl e \<Rightarrow> h))"

text \<open>The headers of a parsed message that the source reads.\<close>

record headers =
  subject :: "string option"
  sender :: "string option"
  date :: "string option"

record message_record =
  source_account :: string
  rdate :: string
  rsender :: string
  rsubject :: string

text \<open>
  \<open>datetime.now() - timedelta(days=DAYS_BACK)\<close>: \<open>OverflowError\<close> when the number of days or the
  result is out of range.
\<close>

definition max_datetime :: int where
  "max_datetime = 3652059 * 86400000000 - 1"

definition date_cutoff :: "int \<Rightarrow> int \<Rightarrow> exn + int" where
  "date_cutoff now days =
     (if days < - 999999999 \<or> 999999999 < days then Inl OtherException
      else (let c = now - days * 86400000000
            in if c < 0 \<or> max_datetime < c then Inl OtherException else Inr c))"

text \<open>
  One IMAP connection, as the server and the network behave on it: what each call of the
  source returns or raises. \<open>imap_search\<close> gives the status and the message ids of
  \<open>messages[0].split()\<close>; a part of a fetch response is a tuple whose payload parses to
  headers (or raises), or something else.
\<close>

datatype part = Fragment | Payload "exn + headers"

record imap_session =
  imap_now :: int
  imap_open :: "exn option"
  imap_login :: "exn option"
  imap_select :: "exn + string"
  imap_search :: "exn + string \<times> string list"
  imap_fetch :: "string \<Rightarrow> exn + string \<times> part list"
  imap_close :: "exn option"
  imap_logout :: "exn option"

definition imap_record :: "maillib \<Rightarrow> string \<Rightarrow> headers \<Rightarrow> message_record" where
  "imap_record L user msg =
     \<lparr>source_account = user,
      rdate = (case date msg of None \<Rightarrow> ''Unknown Date'' | Some d \<Rightarrow> d),
      rsender = (case sender msg of None \<Rightarrow> ''Unknown Sender'' | Some f \<Rightarrow> f),
      rsubject = decode_email_header L (subject msg)\<rparr>"

text \<open>
  Lines 170 to 184: the parts of one response. An exception leaves the loop (the handler of
  line 186 goes on to the next message) and keeps what was appended before it.
\<close>

fun imap_parts :: "maillib \<Rightarrow> string \<Rightarrow> part list \<Rightarrow> message_record list \<Rightarrow> message_record list" where
  "imap_parts L user [] extracted = extracted"
| "imap_parts L user (Fragment # ps) extracted = imap_parts L user ps extracted"
| "imap_parts L user (Payload (Inl e) # ps) extracted = extracted"
| "imap_parts L user (Payload (Inr msg) # ps) extracted =
     imap_parts L user ps (extracted @ [imap_record L user msg])"

text \<open>Lines 160 to 188: the loop over the message ids.\<close>

fun imap_loop :: "maillib \<Rightarrow> string \<Rightarrow> imap_session \<Rightarrow> string list \<Rightarrow> message_record list \<Rightarrow> message_record list" where
  "imap_loop L user s [] extracted = extracted"
| "imap_loop L user s (e_id # ids) extracted =
     imap_loop L user s ids
       (case imap_fetch s e_id of
          Inl e \<Rightarrow> extracted
        | Inr (status, msg_data) \<Rightarrow>
            if status \<noteq> ''OK'' then extracted else imap_parts L user msg_data extracted)"

text \<open>
  The \<open>try\<close> body of \<open>fetch_from_imap\<close>, lines 133 to 192: the records in \<open>extracted_data\<close> when
  the body ends, and the exception that ended it, if one did.
\<close>

definition imap_attempt :: "int \<Rightarrow> maillib \<Rightarrow> string \<Rightarrow> imap_session \<Rightarrow> message_record list \<times> exn option" where
  "imap_attempt days L user s =
     (case imap_open s of Some e \<Rightarrow> ([], Some e) | None \<Rightarrow>
      case imap_login s of Some e \<Rightarrow> ([], Some e) | None \<Rightarrow>
      case imap_select s of Inl e \<Rightarrow> ([], Some e) | Inr status \<Rightarrow>
      if status \<noteq> ''OK'' then ([], None) else
      case date_cutoff (imap_now s) days of Inl e \<Rightarrow> ([], Some e) | Inr cutoff \<Rightarrow>
      case imap_search s of Inl e \<Rightarrow> ([], Some e) | Inr (status2, email_ids) \<Rightarrow>
      if status2 \<noteq> ''OK'' then ([], None) else
      (let extracted = imap_loop L user s email_ids [] in
       case imap_close s of Some e \<Rightarrow> (extracted, Some e) | None \<Rightarrow>
       case imap_logout s of Some e \<Rightarrow> (extracted, Some e) | None \<Rightarrow> (extracted, None)))"

text \<open>
  \<open>fetch_from_imap\<close>: lines 126 to 128, then the \<open>try\<close> statement with its handlers in the
  order of lines 194 to 203, then \<open>return extracted_data\<close>. The server is given by the
  session of each attempt. The result is the list returned, or the exception that leaves
  the function.
\<close>

function fetch_from_imap ::
  "int \<Rightarrow> int \<Rightarrow> maillib \<Rightarrow> account \<Rightarrow> (nat \<Rightarrow> imap_session) \<Rightarrow> nat \<Rightarrow> effect list \<times> (exn + message_record list)"
where
  "fetch_from_imap max_retries days L account_config srv retry_count =
     (case subscript account_config ''email'' of Inl e \<Rightarrow> ([], Inl e) | Inr user \<Rightarrow>
      case subscript account_config ''password'' of Inl e \<Rightarrow> ([], Inl e) | Inr pwd \<Rightarrow>
      case subscript account_config ''server'' of Inl e \<Rightarrow> ([], Inl e) | Inr server_host \<Rightarrow>
      (let body = imap_attempt days L user (srv retry_count);
           extracted_data = fst body
       in case snd body of
            None \<Rightarrow> ([MailConnect server_host], Inr extracted_data)
          | Some e \<Rightarrow>
              if e = IMAP4_error
              then (if int retry_count < max_retries
                    then (let again = fetch_from_imap max_retries days L account_config srv (retry_count + 1)
                          in ([MailConnect server_host, Sleep (2 ^ retry_count)] @ fst again, snd again))
                    else ([MailConnect server_host], Inr extracted_data))
              else if e = TimeoutError then ([MailConnect server_host], Inr extracted_data)
              else ([MailConnect server_host], Inr extracted_data)))"
  by pat_completeness auto
termination
  by (relation "measure (\<lambda>(max_retries, days, L, account_config, srv, retry_count). nat (max_retries - int retry_count))") auto

declare fetch_from_imap.simps [simp del]

text \<open>One POP3 connection. \<open>pop3_list\<close> is \<open>len(mail.list()[1])\<close>; \<open>pop3_retr\<close> is \<open>mail.retr(i)\<close>
  with the parse of what it returns.\<close>

record pop3_session =
  pop3_now :: int
  pop3_open :: "exn option"
  pop3_user :: "exn option"
  pop3_pass :: "exn option"
  pop3_list :: "exn + nat"
  pop3_retr :: "nat \<Rightarrow> exn + headers"
  pop3_quit :: "exn option"

definition pop3_record :: "maillib \<Rightarrow> string \<Rightarrow> headers \<Rightarrow> message_record" where
  "pop3_record L user msg =
     \<lparr>source_account = user,
      rdate = (case date msg of None \<Rightarrow> [] | Some d \<Rightarrow> d),
      rsender = (case sender msg of None \<Rightarrow> ''Unknown Sender'' | Some f \<Rightarrow> f),
      rsubject = decode_email_header L (subject msg)\<rparr>"

text \<open>
  Lines 236 to 272, the body of the loop for one retrieval: the date is compared on its
  wall-clock reading, the zone dropped by \<open>replace(tzinfo=None)\<close>.
\<close>

definition pop3_message :: "maillib \<Rightarrow> string \<Rightarrow> int \<Rightarrow> exn + headers \<Rightarrow> message_record list \<Rightarrow> message_record list" where
  "pop3_message L user cutoff retrieved extracted =
     (case retrieved of
        Inl e \<Rightarrow> extracted
      | Inr msg \<Rightarrow>
          (let date_str = (case date msg of None \<Rightarrow> [] | Some d \<Rightarrow> d)
           in case parsedate_to_datetime L date_str of
                Inr msg_date \<Rightarrow>
                  if wall (msg_date\<lparr>tzinfo := None\<rparr>) < cutoff then extracted
                  else extracted @ [pop3_record L user msg]
              | Inl date_err \<Rightarrow> extracted @ [pop3_record L user msg]))"

fun pop3_loop :: "maillib \<Rightarrow> string \<Rightarrow> int \<Rightarrow> (exn + headers) list \<Rightarrow> message_record list \<Rightarrow> message_record list" where
  "pop3_loop L user cutoff [] extracted = extracted"
| "pop3_loop L user cutoff (r # rs) extracted =
     pop3_loop L user cutoff rs (pop3_message L user cutoff r extracted)"

text \<open>The \<open>try\<close> body of \<open>fetch_from_pop3\<close>, lines 218 to 276.\<close>

definition pop3_attempt :: "int \<Rightarrow> maillib \<Rightarrow> string \<Rightarrow> pop3_session \<Rightarrow> message_record list \<times> exn option" where
  "pop3_attempt days L user s =
     (case pop3_open s of Some e \<Rightarrow> ([], Some e) | None \<Rightarrow>
      case pop3_user s of Some e \<Rightarrow> ([], Some e) | None \<Rightarrow>
      case pop3_pass s of Some e \<Rightarrow> ([], Some e) | None \<Rightarrow>
      case pop3_list s of Inl e \<Rightarrow> ([], Some e) | Inr num_messages \<Rightarrow>
      case date_cutoff (pop3_now s) days of Inl e \<Rightarrow> ([], Some e) | Inr cutoff \<Rightarrow>
      (let extracted = pop3_loop L user cutoff (map (pop3_retr s) [1 ..< num_messages + 1]) [] in
       case pop3_quit s of Some e \<Rightarrow> (extracted, Some e) | None \<Rightarrow> (extracted, None)))"

function fetch_from_pop3 ::
  "int \<Rightarrow> int \<Rightarrow> maillib \<Rightarrow> account \<Rightarrow> (nat \<Rightarrow> pop3_session) \<Rightarrow> nat \<Rightarrow> effect list \<times> (exn + message_record list)"
where
  "fetch_from_pop3 max_retries days L account_config srv retry_count =
     (case subscript account_config ''email'' of Inl e \<Rightarrow> ([], Inl e) | Inr user \<Rightarrow>
      case subscript account_config ''password'' of Inl e \<Rightarrow> ([], Inl e) | Inr pwd \<Rightarrow>
      case subscript account_config ''server'' of Inl e \<Rightarrow> ([], Inl e) | Inr server_host \<Rightarrow>
      (let body = pop3_attempt days L user (srv retry_count);
           extracted_data = fst body
       in case snd body of
            None \<Rightarrow> ([MailConnect server_host], Inr extracted_data)
          | Some e \<Rightarrow>
              if e = error_proto
              then (if int retry_count < max_retries
                    then (let again = fetch_from_pop3 max_retries days L account_config srv (retry_count + 1)
                          in ([MailConnect server_host, Sleep (2 ^ retry_count)] @ fst again, snd again))
                    else ([MailConnect server_host], Inr extracted_data))
              else if e = TimeoutError then ([MailConnect server_host], Inr extracted_data)
              else ([MailConnect server_host], Inr extracted_data)))"
  by pat_completeness auto
termination
  by (relation "measure (\<lambda>(max_retries, days, L, account_config, srv, retry_count). nat (max_retries - int retry_count))") auto

declare fetch_from_pop3.simps [simp del]

text \<open>The mail server of an account: the sessions of its successive connections.\<close>

record mailserver =
  imap_sessions :: "nat \<Rightarrow> imap_session"
  pop3_sessions :: "nat \<Rightarrow> pop3_session"

text \<open>\<open>fetch_from_account\<close>, lines 114 to 122.\<close>

definition fetch_from_account ::
  "int \<Rightarrow> int \<Rightarrow> maillib \<Rightarrow> account \<Rightarrow> mailserver \<Rightarrow> nat \<Rightarrow> effect list \<times> (exn + message_record list)"
where
  "fetch_from_account max_retries days L account_config srv retry_count =
     (case subscript account_config ''email'' of Inl e \<Rightarrow> ([], Inl e) | Inr user \<Rightarrow>
      case subscript account_config ''password'' of Inl e \<Rightarrow> ([], Inl e) | Inr pwd \<Rightarrow>
      case subscript account_config ''server'' of Inl e \<Rightarrow> ([], Inl e) | Inr server_host \<Rightarrow>
      (let proto = upper (case account_config ''protocol'' of None \<Rightarrow> ''IMAP'' | Some p \<Rightarrow> p)
       in if proto = ''POP3''
          then fetch_from_pop3 max_retries days L account_config (pop3_sessions srv) retry_count
          else fetch_from_imap max_retries days L account_config (imap_sessions srv) retry_count))"

subsection \<open>Sending the report\<close>

text \<open>The module's settings (lines 77 to 90).\<close>

record config =
  ACCOUNTS_TO_CHECK :: "account list"
  SENDER_EMAIL :: string
  SENDER_PASS :: string
  SMTP_SERVER :: string
  SMTP_PORT :: int
  RECIPIENT_EMAIL :: string
  REPORT_FILENAME :: string
  DAYS_BACK :: int
  IMAP_TIMEOUT :: int
  MAX_RETRIES :: int

text \<open>
  What writing and sending do: the exception the spreadsheet writer raises, the one the
  CSV writer raises, the one that composing the message and reading the artifact back
  raises (lines 325 to 359), and the one each send attempt raises (\<open>None\<close>: it goes through).
\<close>

record outbox =
  excel_write :: "exn option"
  csv_write :: "exn option"
  compose :: "exn option"
  smtp :: "nat \<Rightarrow> exn option"

text \<open>Lines 301 to 322: the artifact, and the exception that leaves the block.\<close>

definition write_report :: "config \<Rightarrow> outbox \<Rightarrow> effect list \<times> exn option" where
  "write_report cfg out =
     (case excel_write out of
        None \<Rightarrow> ([ExcelWrite (REPORT_FILENAME cfg)], None)
      | Some write_exc \<Rightarrow>
          (case csv_write out of
             None \<Rightarrow> ([ExcelWrite (REPORT_FILENAME cfg), CsvWrite (REPORT_FILENAME cfg)], None)
           | Some csv_exc \<Rightarrow> ([ExcelWrite (REPORT_FILENAME cfg), CsvWrite (REPORT_FILENAME cfg)], Some csv_exc)))"

text \<open>
  Lines 362 to 380: \<open>for attempt in range(MAX_RETRIES)\<close> from \<open>attempt\<close> on, with \<open>True\<close> for
  \<open>return True\<close> and \<open>False\<close> when the loop ends or breaks (line 386 then returns \<open>False\<close>).
\<close>

function send_loop :: "int \<Rightarrow> (nat \<Rightarrow> exn option) \<Rightarrow> nat \<Rightarrow> effect list \<times> bool" where
  "send_loop max_retries attempts attempt =
     (if int attempt < max_retries
      then (case attempts attempt of
              None \<Rightarrow> ([SmtpSend attempt], True)
            | Some e \<Rightarrow>
                if e = SMTPAuthenticationError then ([SmtpSend attempt], False)
                else (let rest = send_loop max_retries attempts (attempt + 1)
                      in if int attempt < max_retries - 1
                         then ([SmtpSend attempt, Sleep (2 ^ attempt)] @ fst rest, snd rest)
                         else ([SmtpSend attempt] @ fst rest, snd rest)))
      else ([], False))"
  by pat_completeness auto
termination
  by (relation "measure (\<lambda>(max_retries, attempts, attempt). nat (max_retries - int attempt))") auto

declare send_loop.simps [simp del]

text \<open>
  \<open>send_consolidated_report(dataframe)\<close>, the data frame given by its rows. Everything after
  line 295 stands in a \<open>try\<close> whose handler \<open>except Exception\<close> returns \<open>False\<close>.
\<close>

definition send_consolidated_report :: "config \<Rightarrow> outbox \<Rightarrow> message_record list \<Rightarrow> effect list \<times> bool" where
  "send_consolidated_report cfg out dataframe =
     (if dataframe = [] then ([], False)
      else (let written = write_report cfg out in
            case snd written of
              Some e \<Rightarrow> (fst written, False)
            | None \<Rightarrow>
               (case compose out of
                  Some e \<Rightarrow> (fst written, False)
                | None \<Rightarrow>
                   (let sent = send_loop (MAX_RETRIES cfg) (smtp out) 0
                    in (fst written @ fst sent, snd sent)))))"

subsection \<open>The main program\<close>

text \<open>
  Lines 420 to 432: the loop over the accounts from position \<open>idx\<close> on, \<open>servers\<close> giving the
  mail server of the account at each position.
\<close>

fun collect ::
  "config \<Rightarrow> maillib \<Rightarrow> (nat \<Rightarrow> mailserver) \<Rightarrow> nat \<Rightarrow> account list \<Rightarrow> effect list \<times> (exn + message_record list)"
where
  "collect cfg L servers idx [] = ([], Inr [])"
| "collect cfg L servers idx (acct # rest) =
     (case subscript acct ''email'' of Inl e \<Rightarrow> ([], Inl e) | Inr addr \<Rightarrow>
      case subscript acct ''password'' of Inl e \<Rightarrow> ([], Inl e) | Inr pwd \<Rightarrow>
      if pwd = [] then collect cfg L servers (idx + 1) rest
      else (let fetched = fetch_from_account (MAX_RETRIES cfg) (DAYS_BACK cfg) L acct (servers idx) 0 in
            case snd fetched of
              Inl e \<Rightarrow> (fst fetched, Inl e)
            | Inr account_data \<Rightarrow>
                (let others = collect cfg L servers (idx + 1) rest in
                 case snd others of
                   Inl e \<Rightarrow> (fst fetched @ fst others, Inl e)
                 | Inr other_data \<Rightarrow> (fst fetched @ fst others, Inr (account_data @ other_data)))))"

text \<open>Line 405: \<open>any(acc['password'] for acc in ACCOUNTS_TO_CHECK)\<close>.\<close>

fun any_password :: "account list \<Rightarrow> exn + bool" where
  "any_password [] = Inr False"
| "any_password (acc # accs) =
     (case subscript acc ''password'' of
        Inl e \<Rightarrow> Inl e
      | Inr pwd \<Rightarrow> if pwd \<noteq> [] then Inr True else any_password accs)"

text \<open>
  Lines 390 to 459: what the program does and its exit code, or the exception that ends
  it.
\<close>

definition main :: "config \<Rightarrow> maillib \<Rightarrow> (nat \<Rightarrow> mailserver) \<Rightarrow> outbox \<Rightarrow> effect list \<times> (exn + int)" where
  "main cfg L servers out =
     (if SENDER_EMAIL cfg = [] \<or> SENDER_PASS cfg = [] then ([], Inr 1)
      else if ACCOUNTS_TO_CHECK cfg = [] then ([], Inr 1)
      else (case any_password (ACCOUNTS_TO_CHECK cfg) of
              Inl e \<Rightarrow> ([], Inl e)
            | Inr False \<Rightarrow> ([], Inr 1)
            | Inr True \<Rightarrow>
               (let collected = collect cfg L servers 0 (ACCOUNTS_TO_CHECK cfg) in
                case snd collected of
                  Inl e \<Rightarrow> (fst collected, Inl e)
                | Inr master_list \<Rightarrow>
                    if master_list \<noteq> []
                    then (let sent = send_consolidated_report cfg out master_list
                          in (fst collected @ fst sent, Inr (if snd sent then 0 else 1)))
                    else (fst collected, Inr 0))))"

subsection \<open>Notions the statements about the report use\<close>

text \<open>Send attempts \<open>0\<close> to \<open>k - 1\<close>, each followed by its back-off.\<close>

definition backoff :: "nat \<Rightarrow> effect list" where
  "backoff k = concat (map (\<lambda>j. [SmtpSend j, Sleep (2 ^ j)]) [0 ..< k])"

text \<open>An effect that writes the report artifact or attempts to send.\<close>

fun is_output :: "effect \<Rightarrow> bool" where
  "is_output (ExcelWrite f) = True"
| "is_output (CsvWrite f) = True"
| "is_output (SmtpSend k) = True"
| "is_output e = False"

text \<open>
  The instant that a date-time names, in microseconds of UTC: its wall-clock reading less
  the offset of its zone. A date-time without a zone is read as UTC.
\<close>

definition instant :: "datetime \<Rightarrow> int" where
  "instant d = wall d - (case tzinfo d of None \<Rightarrow> 0 | Some offset \<Rightarrow> offset)"

text \<open>The environment variable that holds the address of account \<open>n\<close>.\<close>

definition email_key :: "nat \<Rightarrow> string" where
  "email_key n = ''ACCOUNT_'' @ str_of_nat n @ ''_EMAIL''"

text \<open>The number that a string of decimal digits writes, after the digits read so far.\<close>

definition digits_value :: "nat \<Rightarrow> string \<Rightarrow> nat" where
  "digits_value acc ds = foldl (\<lambda>a c. 10 * a + digit_val c) acc ds"

section \<open>Properties of the file-listing transform\<close>

subsection \<open>Evaluation of closed examples\<close>

text \<open>The defining equations that the closed examples below are evaluated with.\<close>

lemmas run_defs =
  path_target_def path_exists_def path_isdir_def entry_path_def resolve_settings_def resolve_recursive_def
  resolve_max_depth_def req_maxdepth_def get_req_param_def try_accessor_def py_or_def flag_on_def
  lower_def lower_char_def int_of_str_def strip_def parse_nat_def is_digit_def digit_val_def
  is_space_def create_entities_def listed_def listing_error_def entry_error_def addUIMessage_def
  summary_def str_of_nat.simps str_of_int_def digit_char_def char_of_def bit_0 may_descend_def
  add_file_def file_entity_def listing_ok_def Let_def

subsection \<open>What a run adds to the response\<close>

lemma add_file_entities:
  "entities (fst (add_file w root fp d st)) = entities (fst st) @ [file_entity w root fp d]"
  by (simp add: add_file_def addUIMessage_def Let_def split: sum.splits)

lemma add_file_count: "snd (add_file w root fp d st) = snd st + 1"
  by (simp add: add_file_def Let_def split: sum.splits)

lemma add_file_messages:
  "\<exists>errs. messages (fst (add_file w root fp d st)) = messages (fst st) @ errs
     \<and> list_all (\<lambda>m. snd m = PartialError) errs"
  by (cases "getsize w fp") (simp_all add: add_file_def addUIMessage_def Let_def)

lemma consume_entities:
  "entities (fst (consume w root st evs))
     = entities (fst st) @ map (\<lambda>(fp, d). file_entity w root fp d) (founds evs)"
proof (induction evs arbitrary: st)
  case Nil
  then show ?case by simp
next
  case (Cons ev evs)
  then show ?case
    by (cases ev) (simp_all add: add_file_entities addUIMessage_def)
qed

lemma consume_count: "snd (consume w root st evs) = snd st + length (founds evs)"
proof (induction evs arbitrary: st)
  case Nil
  then show ?case by simp
next
  case (Cons ev evs)
  then show ?case by (cases ev) (simp_all add: add_file_count)
qed

lemma consume_messages:
  "\<exists>errs. messages (fst (consume w root st evs)) = messages (fst st) @ errs
     \<and> list_all (\<lambda>m. snd m = PartialError) errs"
proof (induction evs arbitrary: st)
  case Nil
  then show ?case by simp
next
  case (Cons ev evs)
  show ?case
  proof (cases ev)
    case (Found fp d)
    obtain e1 where e1: "messages (fst (add_file w root fp d st)) = messages (fst st) @ e1"
      "list_all (\<lambda>m. snd m = PartialError) e1"
      using add_file_messages by blast
    obtain e2 where e2: "messages (fst (consume w root (add_file w root fp d st) evs))
         = messages (fst (add_file w root fp d st)) @ e2"
      "list_all (\<lambda>m. snd m = PartialError) e2"
      using Cons.IH by blast
    from e1 e2 Found show ?thesis
      by (intro exI [of _ "e1 @ e2"]) simp
  next
    case (Note m)
    obtain e2 where e2: "messages (fst (consume w root (addUIMessage m PartialError (fst st), snd st) evs))
         = messages (fst (addUIMessage m PartialError (fst st), snd st)) @ e2"
      "list_all (\<lambda>m. snd m = PartialError) e2"
      using Cons.IH by blast
    from e2 Note show ?thesis
      by (intro exI [of _ "(m, PartialError) # e2"]) (simp add: addUIMessage_def)
  qed
qed

lemma founds_append: "founds (xs @ ys) = founds xs @ founds ys"
  by (induction xs rule: founds.induct) simp_all

lemma scan_top_only:
  "\<not> may_descend cfg d \<Longrightarrow> founds (scan cfg path d ents) = map (\<lambda>p. (p, d)) (seen_files path ents)"
proof (induction ents)
  case Nil
  then show ?case by simp
next
  case (Cons ent rest)
  obtain name terr n where ent: "ent = Entry name terr n" by (cases ent)
  from Cons ent show ?case
    by (cases terr; cases n) (simp_all add: founds_append)
qed

lemma iter_files_top_only:
  "\<not> may_descend cfg d \<Longrightarrow>
     founds (iter_files cfg path d ents fault) = map (\<lambda>p. (p, d)) (seen_files path (listed ents fault))"
  by (cases fault) (auto simp: founds_append scan_top_only)

lemma seen_files_ok:
  "list_all (\<lambda>e. entry_fault e = None) ents \<Longrightarrow> seen_files path ents = child_files path ents"
  by (induction path ents rule: child_files.induct) simp_all

lemma scan_unlink:
  "iter_files cfg path d (map unlink_entry ents) fault = iter_files cfg path d ents fault"
  "scan cfg path d (map unlink_entry ents0) = scan cfg path d ents0"
proof (induction cfg path d ents fault and cfg path d ents0 rule: iter_files_scan.induct)
  case (1 cfg path cur_depth ents fault)
  have h: "listed (map unlink_entry ents) fault = map unlink_entry (listed ents fault)"
    by (simp add: listed_def take_map split: option.splits)
  show ?case using 1 by (simp add: h)
next
  case (2 cfg path cur_depth)
  then show ?case by simp
next
  case (3 cfg path cur_depth name terr n rest)
  then show ?case
    by (cases terr; cases n) simp_all
qed

subsection \<open>Depth limit zero\<close>

text \<open>
  Claim C1, as the code has it: when the input path names a directory whose listing raises
  nothing (neither the iteration of \<open>os.scandir\<close> nor the type query of a direct entry),
  recursion is enabled and \<open>max_depth\<close> is \<open>0\<close>, the transform adds exactly one entity per
  regular file that is a direct child of that directory, in listing order, each of depth
  \<open>0\<close>, and no entity for anything deeper.
\<close>

theorem top_level_only:
  assumes "path_target w (Value request) = Some (Dir ents fault)"
    and "recursive (resolve_settings w request)"
    and "max_depth (resolve_settings w request) = Some 0"
    and "listing_ok ents fault"
  shows "entities (create_entities w request resp)
           = entities resp @ map (\<lambda>fp. file_entity w (Value request) fp 0) (child_files (Value request) ents)"
proof -
  let ?cfg = "resolve_settings w request"
  have nd: "\<not> may_descend ?cfg 0"
    using assms(3) by (simp add: may_descend_def)
  have ok: "fault = None" "list_all (\<lambda>e. entry_fault e = None) ents"
    using assms(4) by (simp_all add: listing_ok_def)
  have "founds (iter_files ?cfg (Value request) 0 ents fault)
          = map (\<lambda>p. (p, 0)) (child_files (Value request) ents)"
    using iter_files_top_only [OF nd, of "Value request" ents fault] ok by (simp add: listed_def seen_files_ok)
  moreover have "path_exists w (Value request)"
    using assms(1) by (simp add: path_exists_def)
  ultimately show ?thesis
    using assms(1)
    by (simp add: create_entities_def path_isdir_def Let_def addUIMessage_def consume_entities comp_def)
qed

text \<open>
  An instance: a directory with a file \<open>a\<close> and a subdirectory \<open>s\<close> that holds a file \<open>b\<close>.
  Only \<open>/d/a\<close> is emitted.
\<close>

theorem top_level_only_witness:
  "entities (create_entities \<lparr>environ = Map.empty,
        stat = (\<lambda>p. if p = ''/d'' then Some (Dir [Entry ''a'' None File, Entry ''s'' None (Dir [Entry ''b'' None File] None)] None) else None),
        getsize = (\<lambda>p. Inr 1), dirname = (\<lambda>p. ''/d''), relpath = (\<lambda>p q. Some ''a'')\<rparr>
      \<lparr>Value = ''/d'', getProperty = None, getPropertyValue = None,
        Properties = Some [''recursive'' \<mapsto> PStr ''1'', ''max_depth'' \<mapsto> PStr ''0''], Fields = None, params = None\<rparr>
      \<lparr>entities = [], messages = []\<rparr>)
   = [\<lparr>entityType = ''maltego.File'', evalue = ''/d/a'',
       properties = [(''path'', ''Path'', ''strict'', PStr ''/d/a''), (''depth'', ''Depth'', ''strict'', PInt 0),
                     (''parent'', ''Parent'', ''strict'', PStr ''/d''),
                     (''relative_path'', ''Relative Path'', ''strict'', PStr ''a''),
                     (''filesize'', ''File Size'', ''loose'', PStr ''1'')]\<rparr>]"
  using top_level_only [of
      "\<lparr>environ = Map.empty,
        stat = (\<lambda>p. if p = ''/d'' then Some (Dir [Entry ''a'' None File, Entry ''s'' None (Dir [Entry ''b'' None File] None)] None) else None),
        getsize = (\<lambda>p. Inr 1), dirname = (\<lambda>p. ''/d''), relpath = (\<lambda>p q. Some ''a'')\<rparr>"
      "\<lparr>Value = ''/d'', getProperty = None, getPropertyValue = None,
        Properties = Some [''recursive'' \<mapsto> PStr ''1'', ''max_depth'' \<mapsto> PStr ''0''], Fields = None, params = None\<rparr>"
      "[Entry ''a'' None File, Entry ''s'' None (Dir [Entry ''b'' None File] None)]" None
      "\<lparr>entities = [], messages = []\<rparr>"]
  by (simp add: run_defs)

text \<open>
  Claim C1 as it is worded speaks of every existing directory. A directory that exists but
  cannot be listed (\<open>os.scandir\<close> raises \<open>PermissionError\<close>) has a regular file as a direct
  child here, and the transform emits no entity: it reports the error and the closing
  message counts \<open>0\<close> files.
\<close>

theorem top_level_only_counterexample:
  "path_target \<lparr>environ = Map.empty,
        stat = (\<lambda>p. if p = ''/d'' then Some (Dir [Entry ''a'' None File] (Some (0, PermissionError ''denied''))) else None),
        getsize = (\<lambda>p. Inr 1), dirname = (\<lambda>p. ''/d''), relpath = (\<lambda>p q. Some ''a'')\<rparr> ''/d''
     = Some (Dir [Entry ''a'' None File] (Some (0, PermissionError ''denied'')))
   \<and> child_files ''/d'' [Entry ''a'' None File] = [''/d/a'']
   \<and> resolve_settings \<lparr>environ = Map.empty,
        stat = (\<lambda>p. if p = ''/d'' then Some (Dir [Entry ''a'' None File] (Some (0, PermissionError ''denied''))) else None),
        getsize = (\<lambda>p. Inr 1), dirname = (\<lambda>p. ''/d''), relpath = (\<lambda>p q. Some ''a'')\<rparr>
      \<lparr>Value = ''/d'', getProperty = None, getPropertyValue = None,
        Properties = Some [''recursive'' \<mapsto> PBool True, ''max_depth'' \<mapsto> PStr ''0''], Fields = None, params = None\<rparr>
     = \<lparr>recursive = True, max_depth = Some 0\<rparr>
   \<and> create_entities \<lparr>environ = Map.empty,
        stat = (\<lambda>p. if p = ''/d'' then Some (Dir [Entry ''a'' None File] (Some (0, PermissionError ''denied''))) else None),
        getsize = (\<lambda>p. Inr 1), dirname = (\<lambda>p. ''/d''), relpath = (\<lambda>p q. Some ''a'')\<rparr>
      \<lparr>Value = ''/d'', getProperty = None, getPropertyValue = None,
        Properties = Some [''recursive'' \<mapsto> PBool True, ''max_depth'' \<mapsto> PStr ''0''], Fields = None, params = None\<rparr>
      \<lparr>entities = [], messages = []\<rparr>
     = \<lparr>entities = [],
        messages = [(''Permission Denied: /d'', PartialError), (''Added 0 file(s) from /d (recursive), max_depth=0'', Inform)]\<rparr>"
  by (simp add: run_defs)

subsection \<open>The closing message\<close>

text \<open>
  Claim C8, as the code has it: when the input path names a directory, the run adds zero or
  more \<open>PartialError\<close> messages and then exactly one informational message, the last one,
  which gives the number of entities the run added, the recursion mode and the depth
  limit. When the path does not exist or is not a directory, the run adds one
  \<open>PartialError\<close> message, no informational message and no entity.
\<close>

theorem closing_message:
  "(case path_target w (Value request) of
      Some (Dir ents fault) \<Rightarrow>
        (\<exists>errs. messages (create_entities w request resp)
             = messages resp @ errs
               @ [(summary (resolve_settings w request) (Value request)
                     (length (entities (create_entities w request resp)) - length (entities resp)), Inform)]
           \<and> list_all (\<lambda>m. snd m = PartialError) errs)
    | _ \<Rightarrow>
        (\<exists>m. messages (create_entities w request resp) = messages resp @ [(m, PartialError)])
        \<and> entities (create_entities w request resp) = entities resp)"
proof (cases "path_target w (Value request)")
  case None
  then show ?thesis
    by (simp add: create_entities_def path_exists_def addUIMessage_def)
next
  case (Some n)
  show ?thesis
  proof (cases n)
    case (Dir ents fault)
    let ?cfg = "resolve_settings w request"
    let ?st = "consume w (Value request) (resp, 0) (iter_files ?cfg (Value request) 0 ents fault)"
    obtain errs where errs: "messages (fst ?st) = messages resp @ errs"
      "list_all (\<lambda>m. snd m = PartialError) errs"
      using consume_messages [of w "Value request" "(resp, 0)"] by auto
    have res: "create_entities w request resp = addUIMessage (summary ?cfg (Value request) (snd ?st)) Inform (fst ?st)"
      using Some Dir by (simp add: create_entities_def path_exists_def path_isdir_def Let_def)
    have cnt: "length (entities (create_entities w request resp)) - length (entities resp) = snd ?st"
      unfolding res by (simp add: addUIMessage_def consume_entities consume_count)
    have "messages (create_entities w request resp)
            = messages resp @ errs @ [(summary ?cfg (Value request) (snd ?st), Inform)]"
      unfolding res using errs(1) by (simp add: addUIMessage_def)
    with cnt errs(2) Some Dir show ?thesis by auto
  qed (use Some in \<open>simp_all add: create_entities_def path_exists_def path_isdir_def addUIMessage_def\<close>)
qed

text \<open>
  An instance: a directory with a file \<open>a\<close>, an entry \<open>x\<close> whose type query fails, and a
  subdirectory \<open>s\<close> that holds a file \<open>b\<close>; no depth limit.
\<close>

theorem closing_message_witness:
  "messages (create_entities \<lparr>environ = Map.empty,
        stat = (\<lambda>p. if p = ''/d'' then Some (Dir [Entry ''a'' None File, Entry ''x'' (Some (OSError ''io'')) Special,
                                                  Entry ''s'' None (Dir [Entry ''b'' None File] None)] None) else None),
        getsize = (\<lambda>p. Inr 1), dirname = (\<lambda>p. ''/d''), relpath = (\<lambda>p q. None)\<rparr>
      \<lparr>Value = ''/d'', getProperty = None, getPropertyValue = None,
        Properties = None, Fields = None, params = None\<rparr>
      \<lparr>entities = [], messages = []\<rparr>)
   = [(''Error processing /d/x: io'', PartialError), (''Added 2 file(s) from /d (recursive)'', Inform)]"
  using closing_message [of
      "\<lparr>environ = Map.empty,
        stat = (\<lambda>p. if p = ''/d'' then Some (Dir [Entry ''a'' None File, Entry ''x'' (Some (OSError ''io'')) Special,
                                                  Entry ''s'' None (Dir [Entry ''b'' None File] None)] None) else None),
        getsize = (\<lambda>p. Inr 1), dirname = (\<lambda>p. ''/d''), relpath = (\<lambda>p q. None)\<rparr>"
      "\<lparr>Value = ''/d'', getProperty = None, getPropertyValue = None,
        Properties = None, Fields = None, params = None\<rparr>"
      "\<lparr>entities = [], messages = []\<rparr>"]
  by (simp add: run_defs)

text \<open>
  Claim C8 as it is worded includes a path that does not exist: there the run ends at line
  22 with the \<open>PartialError\<close> message alone, and no informational message is produced.
\<close>

theorem closing_message_counterexample:
  "create_entities \<lparr>environ = Map.empty, stat = (\<lambda>p. None),
        getsize = (\<lambda>p. Inr 1), dirname = (\<lambda>p. ''/''), relpath = (\<lambda>p q. None)\<rparr>
      \<lparr>Value = ''/nope'', getProperty = None, getPropertyValue = None,
        Properties = None, Fields = None, params = None\<rparr>
      \<lparr>entities = [], messages = []\<rparr>
     = \<lparr>entities = [], messages = [(''Path not found: /nope'', PartialError)]\<rparr>
   \<and> filter (\<lambda>m. snd m = Inform) (messages (create_entities \<lparr>environ = Map.empty, stat = (\<lambda>p. None),
        getsize = (\<lambda>p. Inr 1), dirname = (\<lambda>p. ''/''), relpath = (\<lambda>p q. None)\<rparr>
      \<lparr>Value = ''/nope'', getProperty = None, getPropertyValue = None,
        Properties = None, Fields = None, params = None\<rparr>
      \<lparr>entities = [], messages = []\<rparr>)) = []"
  by (simp add: run_defs)

subsection \<open>Symbolic links\<close>

text \<open>
  Claim C9: the walk does not follow symbolic links. Under every setting and at every
  depth, the generator does on a tree exactly what it does on the same tree with every
  link cut from its target, and an entry that is a link, whatever it points to,
  contributes neither a file nor a descent.
\<close>

theorem links_not_followed:
  "iter_files cfg path d (map unlink_entry ents) fault = iter_files cfg path d ents fault
   \<and> scan cfg path d (Entry name None (Symlink t) # rest) = scan cfg path d rest"
  by (simp add: scan_unlink(1) del: iter_files.simps)

text \<open>
  An instance: a directory \<open>s\<close> reached through the link \<open>l\<close> is not listed, and the link \<open>k\<close>
  to a regular file is not emitted; only the file \<open>a\<close> is.
\<close>

theorem links_not_followed_witness:
  "iter_files \<lparr>recursive = True, max_depth = None\<rparr> ''/d'' 0
      [Entry ''l'' None (Symlink (Some (Dir [Entry ''b'' None File] None))),
       Entry ''k'' None (Symlink (Some File)), Entry ''a'' None File] None
   = [Found ''/d/a'' 0]"
  using links_not_followed [of "\<lparr>recursive = True, max_depth = None\<rparr>" "''/d''" 0
      "[Entry ''l'' None (Symlink (Some (Dir [Entry ''b'' None File] None))),
        Entry ''k'' None (Symlink (Some File)), Entry ''a'' None File]" None "''z''" None "[]"]
  by (simp add: run_defs)

subsection \<open>An override of the depth limit that is not a number\<close>

text \<open>
  Claim C10, as the code has it: when the request parameter \<open>max_depth\<close> holds a truthy
  value (a non-empty string, for one) that \<open>int\<close> does not accept, or holds no truthy
  value while the parameter \<open>maxdepth\<close> holds a value that \<open>int\<close> does not accept, the depth
  limit is \<open>None\<close> whatever the environment holds: \<open>LISTFILES_MAXDEPTH\<close> is not consulted.
\<close>

theorem unparseable_override:
  "(truthy (get_req_param request ''max_depth'')
      \<and> py_int (get_req_param request ''max_depth'') = None
      \<longrightarrow> resolve_max_depth request env = None)
   \<and> (\<not> truthy (get_req_param request ''max_depth'')
      \<and> get_req_param request ''maxdepth'' \<noteq> PNone
      \<and> py_int (get_req_param request ''maxdepth'') = None
      \<longrightarrow> resolve_max_depth request env = None)"
  by (auto simp: resolve_max_depth_def req_maxdepth_def py_or_def)

text \<open>
  Two instances, with \<open>LISTFILES_MAXDEPTH=3\<close> in the environment: the override \<open>abc\<close> under
  the name \<open>max_depth\<close>, and the override \<open>1.5\<close> under the name \<open>maxdepth\<close>.
\<close>

theorem unparseable_override_witness:
  "resolve_max_depth \<lparr>Value = ''/d'', getProperty = None, getPropertyValue = None,
       Properties = Some [''max_depth'' \<mapsto> PStr ''abc''], Fields = None, params = None\<rparr>
       [''LISTFILES_MAXDEPTH'' \<mapsto> ''3''] = None
   \<and> resolve_max_depth \<lparr>Value = ''/d'', getProperty = None, getPropertyValue = None,
       Properties = Some [''maxdepth'' \<mapsto> PStr ''1.5''], Fields = None, params = None\<rparr>
       [''LISTFILES_MAXDEPTH'' \<mapsto> ''3''] = None"
  using unparseable_override [of
      "\<lparr>Value = ''/d'', getProperty = None, getPropertyValue = None,
        Properties = Some [''max_depth'' \<mapsto> PStr ''abc''], Fields = None, params = None\<rparr>"
      "[''LISTFILES_MAXDEPTH'' \<mapsto> ''3'']"]
    unparseable_override [of
      "\<lparr>Value = ''/d'', getProperty = None, getPropertyValue = None,
        Properties = Some [''maxdepth'' \<mapsto> PStr ''1.5''], Fields = None, params = None\<rparr>"
      "[''LISTFILES_MAXDEPTH'' \<mapsto> ''3'']"]
  by (simp add: run_defs)

text \<open>
  Claim C10 as it is worded covers every supplied value that is not a number. The empty
  string is supplied and is not a number, but line 57 joins the two parameter names with
  \<open>or\<close>, which passes over a falsy value: with no \<open>maxdepth\<close> parameter the override counts
  as absent, the environment is consulted, and the depth limit is \<open>3\<close>.
\<close>

theorem unparseable_override_counterexample:
  "get_req_param \<lparr>Value = ''/d'', getProperty = None, getPropertyValue = None,
       Properties = Some [''max_depth'' \<mapsto> PStr ''''], Fields = None, params = None\<rparr> ''max_depth'' = PStr ''''
   \<and> py_int (PStr '''') = None
   \<and> resolve_max_depth \<lparr>Value = ''/d'', getProperty = None, getPropertyValue = None,
       Properties = Some [''max_depth'' \<mapsto> PStr ''''], Fields = None, params = None\<rparr>
       [''LISTFILES_MAXDEPTH'' \<mapsto> ''3''] = Some 3"
  by (simp add: run_defs)

section \<open>Properties of the mailbox report\<close>

text \<open>The defining equations that the closed examples of this section are evaluated with.\<close>

lemmas report_defs =
  imap_attempt_def pop3_attempt_def subscript_def date_cutoff_def max_datetime_def
  pop3_message_def pop3_record_def imap_record_def decode_email_header_def
  fetch_from_account_def send_consolidated_report_def write_report_def backoff_def main_def
  upper_def upper_char_def discover_accounts_def build_account_def account_key_def env_get_def
  account_pattern_def email_key_def
  int_of_str_def strip_def parse_nat_def is_digit_def digit_val_def is_space_def
  str_of_nat.simps str_of_int_def digit_char_def char_of_def bit_0 Let_def

subsection \<open>Account discovery\<close>

text \<open>Decimal digits: what \<open>int\<close> reads is what the f-string of line 54 writes.\<close>

lemma digit_not_space: "is_digit c \<Longrightarrow> \<not> is_space c"
  by (auto simp: is_digit_def is_space_def Let_def)

lemma digit_not_sign: "is_digit c \<Longrightarrow> c \<noteq> CHR ''-'' \<and> c \<noteq> CHR ''+'' \<and> c \<noteq> CHR ''_''"
  by (auto simp: is_digit_def Let_def)

lemma digit_char_digit: "d < 10 \<Longrightarrow> is_digit (digit_char d) \<and> digit_val (digit_char d) = d"
  by (simp add: is_digit_def digit_val_def digit_char_def Let_def)

lemma str_of_nat_digits: "list_all is_digit (str_of_nat n) \<and> str_of_nat n \<noteq> []"
proof (induction n rule: str_of_nat.induct)
  case (1 n)
  show ?case
  proof (cases "n < 10")
    case True
    then show ?thesis by (subst (1 2) str_of_nat.simps) (simp add: digit_char_digit)
  next
    case False
    then show ?thesis
      using 1 by (subst (1 2) str_of_nat.simps) (simp add: digit_char_digit)
  qed
qed

lemma parse_digits_all:
  "list_all is_digit ds \<Longrightarrow> parse_digits acc ds = Some (digits_value acc ds)"
  by (induction acc ds rule: parse_digits.induct) (simp_all add: digits_value_def)

lemma parse_nat_all:
  "list_all is_digit ds \<Longrightarrow> ds \<noteq> [] \<Longrightarrow> parse_nat ds = Some (digits_value 0 ds)"
  by (cases ds) (simp_all add: parse_nat_def parse_digits_all digits_value_def)

lemma digits_value_str_of_nat: "digits_value 0 (str_of_nat n) = n"
proof (induction n rule: str_of_nat.induct)
  case (1 n)
  show ?case
  proof (cases "n < 10")
    case True
    then show ?thesis
      by (subst str_of_nat.simps) (simp add: digits_value_def digit_char_digit)
  next
    case False
    then have "digits_value 0 (str_of_nat (n div 10)) = n div 10" using 1 by simp
    then show ?thesis
      using False
      by (subst str_of_nat.simps) (simp add: digits_value_def digit_char_digit)
  qed
qed

lemma strip_digits:
  assumes "list_all is_digit ds"
  shows "strip ds = ds"
proof (cases ds)
  case Nil
  then show ?thesis by (simp add: strip_def)
next
  case (Cons c cs)
  then have "\<not> is_space (hd ds)" using assms by (simp add: digit_not_space)
  then have a: "dropWhile is_space ds = ds" using Cons by simp
  have "ds \<noteq> []" using Cons by simp
  then have "is_digit (last ds)" using assms by (simp add: list_all_iff)
  then have "\<not> is_space (hd (rev ds))" using \<open>ds \<noteq> []\<close> by (simp add: hd_rev digit_not_space)
  then have "dropWhile is_space (rev ds) = rev ds"
    using \<open>ds \<noteq> []\<close> by (cases "rev ds") simp_all
  with a show ?thesis by (simp add: strip_def)
qed

lemma int_of_str_digits:
  assumes "list_all is_digit ds" and "ds \<noteq> []"
  shows "int_of_str ds = Some (int (digits_value 0 ds))"
proof -
  obtain c cs where ds: "ds = c # cs" using assms(2) by (cases ds) auto
  then have "is_digit c" using assms(1) by simp
  then have "c \<noteq> CHR ''-''" "c \<noteq> CHR ''+''" using digit_not_sign by auto
  moreover have "strip (c # cs) = c # cs"
    using strip_digits [OF assms(1)] ds by simp
  moreover have "parse_nat (c # cs) = Some (digits_value 0 (c # cs))"
    using parse_nat_all [OF assms] ds by simp
  ultimately show ?thesis
    using ds by (simp add: int_of_str_def)
qed

lemma int_of_str_str_of_nat: "int_of_str (str_of_nat n) = Some (int n)"
  using int_of_str_digits [of "str_of_nat n"] str_of_nat_digits [of n]
  by (simp add: digits_value_str_of_nat)

lemma account_pattern_digits:
  "account_pattern key = Some ds \<Longrightarrow> list_all is_digit ds \<and> ds \<noteq> []"
  by (auto simp: account_pattern_def Let_def list_all_iff split: if_splits dest: set_takeWhileD)

lemma account_pattern_email_key: "account_pattern (email_key n) = Some (str_of_nat n)"
proof -
  have d: "list_all is_digit (str_of_nat n)" "str_of_nat n \<noteq> []"
    using str_of_nat_digits by auto
  have nd: "\<not> is_digit CHR ''_''" by (simp add: is_digit_def)
  have t: "takeWhile is_digit (str_of_nat n @ ''_EMAIL'') = str_of_nat n"
    using d(1) nd by (simp add: list_all_iff)
  have dr: "dropWhile is_digit (str_of_nat n @ ''_EMAIL'') = ''_EMAIL''"
    using d(1) nd by (simp add: list_all_iff)
  show ?thesis
    using d(2) by (simp add: account_pattern_def email_key_def t dr)
qed

lemma account_key_email: "0 \<le> x \<Longrightarrow> account_key x ''EMAIL'' = email_key (nat x)"
  by (simp add: account_key_def email_key_def str_of_int_def)

lemma account_numbers_total:
  "\<exists>xs. account_numbers keys = Some xs
        \<and> set xs = {int (digits_value 0 ds) | ds key. key \<in> set keys \<and> account_pattern key = Some ds}"
proof (induction keys)
  case Nil
  then show ?case by simp
next
  case (Cons key keys)
  then obtain xs where xs: "account_numbers keys = Some xs"
    "set xs = {int (digits_value 0 ds) | ds k. k \<in> set keys \<and> account_pattern k = Some ds}"
    by blast
  show ?case
  proof (cases "account_pattern key")
    case None
    with xs show ?thesis by auto
  next
    case (Some ds)
    then have "int_of_str ds = Some (int (digits_value 0 ds))"
      using account_pattern_digits int_of_str_digits by blast
    with Some xs show ?thesis by auto
  qed
qed


lemma build_account_emails:
  "map (\<lambda>a. a ''email'') (concat (map (build_account env) ys))
     = map (\<lambda>x. map_of env (account_key x ''EMAIL''))
         (filter (\<lambda>x. \<exists>v. map_of env (account_key x ''EMAIL'') = Some v \<and> v \<noteq> []) ys)"
proof (induction ys)
  case Nil
  then show ?case by simp
next
  case (Cons y ys)
  show ?case
  proof (cases "map_of env (account_key y ''EMAIL'')")
    case None
    with Cons show ?thesis by (simp add: build_account_def Let_def)
  next
    case (Some addr)
    with Cons show ?thesis by (cases "addr = []") (simp_all add: build_account_def Let_def)
  qed
qed

text \<open>
  Claim C4: for every environment, \<open>discover_accounts\<close> returns without raising, and its
  descriptors are, in order, those of the numbers \<open>N\<close> (written in decimal as line 54
  formats them) whose variable \<open>ACCOUNT_N_EMAIL\<close> is set to a non-empty value: one
  descriptor for each such number, carrying that address, in strictly ascending order of
  \<open>N\<close>, contiguous or not. A number whose address is unset or empty is not in that list, so
  it has no descriptor.
\<close>

theorem discovery_by_number:
  "\<exists>ns. sorted_wrt (<) ns
      \<and> set ns = {n. \<exists>v. map_of env (email_key n) = Some v \<and> v \<noteq> []}
      \<and> map_option (map (\<lambda>a. a ''email'')) (discover_accounts env)
          = Some (map (\<lambda>n. map_of env (email_key n)) ns)"
proof -
  let ?has = "\<lambda>x. \<exists>v. map_of env (account_key x ''EMAIL'') = Some v \<and> v \<noteq> []"
  obtain xs where xs: "account_numbers (map fst env) = Some xs"
    "set xs = {int (digits_value 0 ds) | ds key. key \<in> set (map fst env) \<and> account_pattern key = Some ds}"
    using account_numbers_total by blast
  define ys where "ys = sort (remdups xs)"
  define zs where "zs = filter ?has ys"
  define ns where "ns = map nat zs"
  have nonneg: "0 \<le> x" if "x \<in> set ys" for x
    using that xs(2) by (auto simp: ys_def)
  have strict: "sorted_wrt (<) ys"
    by (simp add: ys_def strict_sorted_iff)
  have key: "account_key x ''EMAIL'' = email_key (nat x)" if "x \<in> set zs" for x
    using that nonneg by (simp add: zs_def account_key_email)
  have "sorted_wrt (<) zs"
    using strict by (simp add: zs_def sorted_wrt_filter)
  then have "sorted_wrt (\<lambda>x y. nat x < nat y) zs"
  proof (rule sorted_wrt_mono_rel [rotated])
    fix x y assume "x \<in> set zs" "y \<in> set zs" "x < y"
    then have "0 \<le> x" "x < y" using nonneg by (simp_all add: zs_def)
    then show "nat x < nat y" by linarith
  qed
  then have sorted_ns: "sorted_wrt (<) ns"
    by (simp add: ns_def sorted_wrt_map)
  have set_ns: "set ns = {n. \<exists>v. map_of env (email_key n) = Some v \<and> v \<noteq> []}"
  proof (intro equalityI subsetI)
    fix n assume "n \<in> set ns"
    then obtain x where x: "x \<in> set zs" "n = nat x" by (auto simp: ns_def)
    then have "?has x" by (simp add: zs_def)
    then show "n \<in> {n. \<exists>v. map_of env (email_key n) = Some v \<and> v \<noteq> []}"
      using key [OF x(1)] x(2) by simp
  next
    fix n assume "n \<in> {n. \<exists>v. map_of env (email_key n) = Some v \<and> v \<noteq> []}"
    then obtain v where v: "map_of env (email_key n) = Some v" "v \<noteq> []" by blast
    then have "email_key n \<in> set (map fst env)"
      by (metis map_of_SomeD fst_conv image_eqI set_map)
    then have "int (digits_value 0 (str_of_nat n)) \<in> set xs"
      using xs(2) account_pattern_email_key by blast
    then have "int n \<in> set ys"
      by (simp add: ys_def digits_value_str_of_nat)
    moreover have "?has (int n)"
      using v by (simp add: account_key_email)
    ultimately have "int n \<in> set zs" by (simp add: zs_def)
    then have "nat (int n) \<in> set ns" unfolding ns_def by (metis image_eqI set_map)
    then show "n \<in> set ns" by simp
  qed
  have "map (\<lambda>a. a ''email'') (concat (map (build_account env) ys))
          = map (\<lambda>x. map_of env (account_key x ''EMAIL'')) zs"
    by (simp add: zs_def build_account_emails)
  also have "\<dots> = map (\<lambda>n. map_of env (email_key n)) ns"
    using key by (simp add: ns_def)
  finally have "map_option (map (\<lambda>a. a ''email'')) (discover_accounts env)
                  = Some (map (\<lambda>n. map_of env (email_key n)) ns)"
    using xs(1) by (simp add: discover_accounts_def ys_def)
  with sorted_ns set_ns show ?thesis by blast
qed

text \<open>
  An instance: accounts 5 and 1 have an address, account 3 has an empty one and account 2
  only a password. The descriptors are those of 1 and 5, in that order.
\<close>

theorem discovery_by_number_witness:
  "map_option (map (\<lambda>a. a ''email''))
     (discover_accounts [(''ACCOUNT_5_EMAIL'', ''e@x''), (''HOME'', ''/root''), (''ACCOUNT_1_EMAIL'', ''a@x''),
                         (''ACCOUNT_3_EMAIL'', ''''), (''ACCOUNT_2_PASS'', ''pw'')])
     = Some [Some ''a@x'', Some ''e@x'']"
  using discovery_by_number [of "[(''ACCOUNT_5_EMAIL'', ''e@x''), (''HOME'', ''/root''), (''ACCOUNT_1_EMAIL'', ''a@x''),
                         (''ACCOUNT_3_EMAIL'', ''''), (''ACCOUNT_2_PASS'', ''pw'')]"]
  by (simp add: report_defs)

subsection \<open>Retries of a fetch\<close>





subsection \<open>A fetch never raises\<close>

lemma fetch_from_imap_returns:
  assumes "account_config ''email'' = Some user"
    and "account_config ''password'' = Some pwd"
    and "account_config ''server'' = Some host"
  shows "\<exists>rs. snd (fetch_from_imap max_retries days L account_config srv k) = Inr rs"
  using assms
proof (induction max_retries days L account_config srv k rule: fetch_from_imap.induct)
  case (1 max_retries days L account_config srv retry_count)
  show ?case
  proof (cases "snd (imap_attempt days L user (srv retry_count)) = Some IMAP4_error \<and> int retry_count < max_retries")
    case True
    then have "\<exists>rs. snd (fetch_from_imap max_retries days L account_config srv (retry_count + 1)) = Inr rs"
      using "1.IH" [of user pwd host] "1.prems" by (simp add: subscript_def)
    then show ?thesis
      using True "1.prems"
      by (subst fetch_from_imap.simps) (simp add: subscript_def Let_def)
  next
    case False
    then show ?thesis
      using "1.prems"
      by (subst fetch_from_imap.simps) (auto simp: subscript_def Let_def split: option.splits)
  qed
qed

lemma fetch_from_pop3_returns:
  assumes "account_config ''email'' = Some user"
    and "account_config ''password'' = Some pwd"
    and "account_config ''server'' = Some host"
  shows "\<exists>rs. snd (fetch_from_pop3 max_retries days L account_config srv k) = Inr rs"
  using assms
proof (induction max_retries days L account_config srv k rule: fetch_from_pop3.induct)
  case (1 max_retries days L account_config srv retry_count)
  show ?case
  proof (cases "snd (pop3_attempt days L user (srv retry_count)) = Some error_proto \<and> int retry_count < max_retries")
    case True
    then have "\<exists>rs. snd (fetch_from_pop3 max_retries days L account_config srv (retry_count + 1)) = Inr rs"
      using "1.IH" [of user pwd host] "1.prems" by (simp add: subscript_def)
    then show ?thesis
      using True "1.prems"
      by (subst fetch_from_pop3.simps) (simp add: subscript_def Let_def)
  next
    case False
    then show ?thesis
      using "1.prems"
      by (subst fetch_from_pop3.simps) (auto simp: subscript_def Let_def split: option.splits)
  qed
qed

text \<open>
  Claim C3: for every account configuration (a dictionary with \<open>email\<close>, \<open>password\<close> and
  \<open>server\<close>; \<open>protocol\<close> is optional) and every behaviour of the mail server on every
  connection, \<open>fetch_from_account\<close> returns a list: no exception leaves it.
\<close>

theorem fetch_never_raises:
  assumes "account_config ''email'' = Some user"
    and "account_config ''password'' = Some pwd"
    and "account_config ''server'' = Some host"
  shows "\<exists>rs. snd (fetch_from_account max_retries days L account_config srv k) = Inr rs"
  using fetch_from_imap_returns [OF assms] fetch_from_pop3_returns [OF assms] assms
  by (simp add: fetch_from_account_def subscript_def Let_def)

text \<open>
  An instance: a POP3 account (the protocol is upper-cased) whose server rejects the
  password on every connection; after the retry the result is the empty list.
\<close>

theorem fetch_never_raises_witness:
  "snd (fetch_from_account 1 7 \<lparr>decode_header = (\<lambda>h. Inr h), parsedate_to_datetime = (\<lambda>s. Inl OtherException)\<rparr>
      [''email'' \<mapsto> ''a@x'', ''password'' \<mapsto> ''pw'', ''server'' \<mapsto> ''mail.x'', ''protocol'' \<mapsto> ''pop3'']
      \<lparr>imap_sessions = (\<lambda>k. \<lparr>imap_now = 0, imap_open = Some OtherException, imap_login = None, imap_select = Inr ''OK'',
              imap_search = Inr (''OK'', []), imap_fetch = (\<lambda>i. Inl OtherException),
              imap_close = None, imap_logout = None\<rparr>),
       pop3_sessions = (\<lambda>k. \<lparr>pop3_now = 0, pop3_open = None, pop3_user = None, pop3_pass = Some error_proto,
              pop3_list = Inr 0, pop3_retr = (\<lambda>i. Inl OtherException), pop3_quit = None\<rparr>)\<rparr> 0)
     = Inr []"
  using fetch_never_raises [of
      "[''email'' \<mapsto> ''a@x'', ''password'' \<mapsto> ''pw'', ''server'' \<mapsto> ''mail.x'', ''protocol'' \<mapsto> ''pop3'']"
      "''a@x''" "''pw''" "''mail.x''" 1 7
      "\<lparr>decode_header = (\<lambda>h. Inr h), parsedate_to_datetime = (\<lambda>s. Inl OtherException)\<rparr>"
      "\<lparr>imap_sessions = (\<lambda>k. \<lparr>imap_now = 0, imap_open = Some OtherException, imap_login = None, imap_select = Inr ''OK'',
              imap_search = Inr (''OK'', []), imap_fetch = (\<lambda>i. Inl OtherException),
              imap_close = None, imap_logout = None\<rparr>),
       pop3_sessions = (\<lambda>k. \<lparr>pop3_now = 0, pop3_open = None, pop3_user = None, pop3_pass = Some error_proto,
              pop3_list = Inr 0, pop3_retr = (\<lambda>i. Inl OtherException), pop3_quit = None\<rparr>)\<rparr>" 0]
  by (simp add: report_defs fetch_from_imap.simps fetch_from_pop3.simps)

subsection \<open>The date filter of the POP3 path\<close>

lemma pop3_message_acc:
  "pop3_message L user cutoff r extracted = extracted @ pop3_message L user cutoff r []"
  by (simp add: pop3_message_def Let_def split: sum.splits)

lemma pop3_loop_concat:
  "pop3_loop L user cutoff rs extracted
     = extracted @ concat (map (\<lambda>r. pop3_message L user cutoff r []) rs)"
proof (induction rs arbitrary: extracted)
  case Nil
  then show ?case by simp
next
  case (Cons r rs)
  have "pop3_loop L user cutoff (r # rs) extracted
          = pop3_message L user cutoff r extracted @ concat (map (\<lambda>r. pop3_message L user cutoff r []) rs)"
    using Cons [of "pop3_message L user cutoff r extracted"] by simp
  also have "\<dots> = extracted @ pop3_message L user cutoff r []
                 @ concat (map (\<lambda>r. pop3_message L user cutoff r []) rs)"
    using pop3_message_acc [of L user cutoff r extracted] by simp
  finally show ?case by simp
qed

lemma date_cutoff_value:
  "date_cutoff now days = Inr cutoff \<Longrightarrow> cutoff = now - days * 86400000000"
  by (simp add: date_cutoff_def Let_def split: if_splits)

lemma pop3_attempt_data:
  assumes "pop3_open s = None" and "pop3_user s = None" and "pop3_pass s = None"
    and "pop3_list s = Inr n" and "date_cutoff (pop3_now s) days = Inr cutoff"
  shows "fst (pop3_attempt days L user s)
           = concat (map (\<lambda>i. pop3_message L user cutoff (pop3_retr s i) []) [1 ..< n + 1])"
  using assms
  by (simp add: pop3_attempt_def Let_def pop3_loop_concat comp_def split: option.splits)

lemma fetch_from_pop3_no_retry:
  assumes "account_config ''email'' = Some user"
    and "account_config ''password'' = Some pwd"
    and "account_config ''server'' = Some host"
    and "\<not> (snd (pop3_attempt days L user (srv k)) = Some error_proto \<and> int k < max_retries)"
  shows "fetch_from_pop3 max_retries days L account_config srv k
           = ([MailConnect host], Inr (fst (pop3_attempt days L user (srv k))))"
  using assms
  by (subst fetch_from_pop3.simps) (auto simp: subscript_def Let_def split: option.splits)

text \<open>
  Claim C7, as the code has it. On a POP3 connection that is opened, authenticated and
  listed, the cut-off is the local wall-clock \<open>now\<close> minus the lookback window, and
  \<open>extracted_data\<close> is made of what each of the messages \<open>1\<close> to \<open>n\<close> adds, in order. A
  retrieved message whose \<open>Date\<close> header parses to a date-time whose wall-clock reading (the
  zone offset dropped, as line 253 does) is strictly before the cut-off adds nothing; one
  whose reading is not before the cut-off adds its record; one whose \<open>Date\<close> header does not
  parse adds its record. Unless the attempt ends in a protocol error that is retried,
  \<open>fetch_from_pop3\<close> returns that \<open>extracted_data\<close>.
\<close>

theorem pop3_date_filter:
  assumes "pop3_open s = None" and "pop3_user s = None" and "pop3_pass s = None"
    and "pop3_list s = Inr n" and "date_cutoff (pop3_now s) days = Inr cutoff"
  shows
    "cutoff = pop3_now s - days * 86400000000
     \<and> fst (pop3_attempt days L user s)
          = concat (map (\<lambda>i. pop3_message L user cutoff (pop3_retr s i) []) [1 ..< n + 1])
     \<and> (parsedate_to_datetime L (case date msg of None \<Rightarrow> [] | Some d \<Rightarrow> d) = Inr msg_date
          \<and> wall msg_date < cutoff
          \<longrightarrow> pop3_message L user cutoff (Inr msg) [] = [])
     \<and> (parsedate_to_datetime L (case date msg of None \<Rightarrow> [] | Some d \<Rightarrow> d) = Inr msg_date
          \<and> \<not> wall msg_date < cutoff
          \<longrightarrow> pop3_message L user cutoff (Inr msg) [] = [pop3_record L user msg])
     \<and> (parsedate_to_datetime L (case date msg of None \<Rightarrow> [] | Some d \<Rightarrow> d) = Inl date_err
          \<longrightarrow> pop3_message L user cutoff (Inr msg) [] = [pop3_record L user msg])
     \<and> (account_config ''email'' = Some user \<and> account_config ''password'' = Some pwd
          \<and> account_config ''server'' = Some host \<and> srv k = s
          \<and> \<not> (snd (pop3_attempt days L user s) = Some error_proto \<and> int k < max_retries)
          \<longrightarrow> fetch_from_pop3 max_retries days L account_config srv k
                = ([MailConnect host], Inr (fst (pop3_attempt days L user s))))"
proof (intro conjI impI)
  show "cutoff = pop3_now s - days * 86400000000"
    using assms(5) by (rule date_cutoff_value)
next
  show "fst (pop3_attempt days L user s)
          = concat (map (\<lambda>i. pop3_message L user cutoff (pop3_retr s i) []) [1 ..< n + 1])"
    using assms by (rule pop3_attempt_data)
next
  assume "parsedate_to_datetime L (case date msg of None \<Rightarrow> [] | Some d \<Rightarrow> d) = Inr msg_date
          \<and> wall msg_date < cutoff"
  then show "pop3_message L user cutoff (Inr msg) [] = []"
    by (simp add: pop3_message_def Let_def)
next
  assume "parsedate_to_datetime L (case date msg of None \<Rightarrow> [] | Some d \<Rightarrow> d) = Inr msg_date
          \<and> \<not> wall msg_date < cutoff"
  then show "pop3_message L user cutoff (Inr msg) [] = [pop3_record L user msg]"
    by (simp add: pop3_message_def Let_def)
next
  assume "parsedate_to_datetime L (case date msg of None \<Rightarrow> [] | Some d \<Rightarrow> d) = Inl date_err"
  then show "pop3_message L user cutoff (Inr msg) [] = [pop3_record L user msg]"
    by (simp add: pop3_message_def Let_def)
next
  assume a: "account_config ''email'' = Some user \<and> account_config ''password'' = Some pwd
          \<and> account_config ''server'' = Some host \<and> srv k = s
          \<and> \<not> (snd (pop3_attempt days L user s) = Some error_proto \<and> int k < max_retries)"
  then show "fetch_from_pop3 max_retries days L account_config srv k
                = ([MailConnect host], Inr (fst (pop3_attempt days L user s)))"
    using fetch_from_pop3_no_retry [of account_config user pwd host days L srv k max_retries]
    by auto
qed

text \<open>
  An instance, at noon of 10 January 2024 with a window of 7 days, so that the cut-off is
  noon of 3 January: message 1 is dated 1 January 08:00 and is skipped, message 2 has no
  \<open>Date\<close> header and is kept, message 3 cannot be retrieved.
\<close>

theorem pop3_date_filter_witness:
  "fetch_from_pop3 3 7
      \<lparr>decode_header = (\<lambda>h. Inr h),
        parsedate_to_datetime = (\<lambda>s. if s = ''Mon, 01 Jan 2024 08:00:00 +0000''
                                       then Inr \<lparr>wall = 63839692800000000, tzinfo = Some 0\<rparr>
                                       else Inl OtherException)\<rparr>
      [''email'' \<mapsto> ''u@x'', ''password'' \<mapsto> ''pw'', ''server'' \<mapsto> ''pop.x'']
      (\<lambda>k. \<lparr>pop3_now = 63840484800000000, pop3_open = None, pop3_user = None, pop3_pass = None,
              pop3_list = Inr 3,
              pop3_retr = (\<lambda>i. if i = 1 then Inr \<lparr>subject = Some ''a'', sender = Some ''s'',
                                                   date = Some ''Mon, 01 Jan 2024 08:00:00 +0000''\<rparr>
                                else if i = 2 then Inr \<lparr>subject = Some ''b'', sender = None, date = None\<rparr>
                                else Inl OtherException),
              pop3_quit = None\<rparr>) 0
     = ([MailConnect ''pop.x''],
        Inr [\<lparr>source_account = ''u@x'', rdate = [], rsender = ''Unknown Sender'', rsubject = ''b''\<rparr>])"
  using pop3_date_filter [of
      "\<lparr>pop3_now = 63840484800000000, pop3_open = None, pop3_user = None, pop3_pass = None,
              pop3_list = Inr 3,
              pop3_retr = (\<lambda>i. if i = 1 then Inr \<lparr>subject = Some ''a'', sender = Some ''s'',
                                                   date = Some ''Mon, 01 Jan 2024 08:00:00 +0000''\<rparr>
                                else if i = 2 then Inr \<lparr>subject = Some ''b'', sender = None, date = None\<rparr>
                                else Inl OtherException),
              pop3_quit = None\<rparr>"
      3 7 63839880000000000
      "\<lparr>decode_header = (\<lambda>h. Inr h),
        parsedate_to_datetime = (\<lambda>s. if s = ''Mon, 01 Jan 2024 08:00:00 +0000''
                                       then Inr \<lparr>wall = 63839692800000000, tzinfo = Some 0\<rparr>
                                       else Inl OtherException)\<rparr>"
      "''u@x''"
      "\<lparr>subject = Some ''a'', sender = Some ''s'', date = Some ''Mon, 01 Jan 2024 08:00:00 +0000''\<rparr>"
      "\<lparr>wall = 63839692800000000, tzinfo = Some 0\<rparr>" OtherException
      "[''email'' \<mapsto> ''u@x'', ''password'' \<mapsto> ''pw'', ''server'' \<mapsto> ''pop.x'']"
      "''pw''" "''pop.x''"
      "\<lambda>k. \<lparr>pop3_now = 63840484800000000, pop3_open = None, pop3_user = None, pop3_pass = None,
              pop3_list = Inr 3,
              pop3_retr = (\<lambda>i. if i = 1 then Inr \<lparr>subject = Some ''a'', sender = Some ''s'',
                                                   date = Some ''Mon, 01 Jan 2024 08:00:00 +0000''\<rparr>
                                else if i = 2 then Inr \<lparr>subject = Some ''b'', sender = None, date = None\<rparr>
                                else Inl OtherException),
              pop3_quit = None\<rparr>"
      0 3]
  by (simp add: report_defs upt_rec)

text \<open>
  Claim C7 as it is worded speaks of a message whose date-time is older than the cut-off.
  Line 253 drops the zone offset before it compares, so that a date-time is taken by the
  clock reading it shows and not by the instant it names. On a machine whose local time
  is UTC, at noon of 10 January 2024 with a window of 7 days, the cut-off is noon of
  3 January. A message dated \<open>Wed, 03 Jan 2024 12:00:01 +0900\<close> names an instant almost nine
  hours before the cut-off, and it is not skipped: its record is returned.
\<close>

theorem pop3_date_filter_counterexample:
  "date_cutoff 63840484800000000 7 = Inr 63839880000000000
   \<and> instant \<lparr>wall = 63839880001000000, tzinfo = Some 32400000000\<rparr>
       < instant \<lparr>wall = 63839880000000000, tzinfo = Some 0\<rparr>
   \<and> fetch_from_pop3 3 7
      \<lparr>decode_header = (\<lambda>h. Inr h),
        parsedate_to_datetime = (\<lambda>s. if s = ''Wed, 03 Jan 2024 12:00:01 +0900''
                                       then Inr \<lparr>wall = 63839880001000000, tzinfo = Some 32400000000\<rparr>
                                       else Inl OtherException)\<rparr>
      [''email'' \<mapsto> ''u@x'', ''password'' \<mapsto> ''pw'', ''server'' \<mapsto> ''pop.x'']
      (\<lambda>k. \<lparr>pop3_now = 63840484800000000, pop3_open = None, pop3_user = None, pop3_pass = None,
              pop3_list = Inr 1,
              pop3_retr = (\<lambda>i. Inr \<lparr>subject = Some ''a'', sender = Some ''s'',
                                      date = Some ''Wed, 03 Jan 2024 12:00:01 +0900''\<rparr>),
              pop3_quit = None\<rparr>) 0
     = ([MailConnect ''pop.x''],
        Inr [\<lparr>source_account = ''u@x'', rdate = ''Wed, 03 Jan 2024 12:00:01 +0900'',
              rsender = ''s'', rsubject = ''a''\<rparr>])"
  by (simp add: report_defs instant_def fetch_from_pop3.simps pop3_loop_concat upt_rec)

subsection \<open>Sending\<close>

lemma send_loop_auth:
  "int k < max_retries \<Longrightarrow> attempts k = Some SMTPAuthenticationError
     \<Longrightarrow> send_loop max_retries attempts k = ([SmtpSend k], False)"
  by (subst send_loop.simps) simp

lemma send_loop_sent:
  "int k < max_retries \<Longrightarrow> attempts k = None
     \<Longrightarrow> send_loop max_retries attempts k = ([SmtpSend k], True)"
  by (subst send_loop.simps) simp

lemma send_loop_past: "\<not> int k < max_retries \<Longrightarrow> send_loop max_retries attempts k = ([], False)"
  by (subst send_loop.simps) simp

lemma send_loop_retry:
  "int k < max_retries - 1 \<Longrightarrow> attempts k = Some e \<Longrightarrow> e \<noteq> SMTPAuthenticationError
     \<Longrightarrow> send_loop max_retries attempts k
           = ([SmtpSend k, Sleep (2 ^ k)] @ fst (send_loop max_retries attempts (k + 1)),
              snd (send_loop max_retries attempts (k + 1)))"
  by (subst send_loop.simps) (simp add: Let_def)

lemma send_loop_last:
  "int k = max_retries - 1 \<Longrightarrow> attempts k = Some e \<Longrightarrow> e \<noteq> SMTPAuthenticationError
     \<Longrightarrow> send_loop max_retries attempts k = ([SmtpSend k], False)"
  by (subst send_loop.simps) (simp add: Let_def send_loop_past)

lemma send_loop_head:
  "int k < max_retries \<Longrightarrow> \<exists>rest. fst (send_loop max_retries attempts k) = SmtpSend k # rest"
  by (subst send_loop.simps) (simp add: Let_def split: option.splits)

lemma backoff_Suc: "backoff (Suc k) = backoff k @ [SmtpSend k, Sleep (2 ^ k)]"
  by (simp add: backoff_def)

lemma send_loop_prefix:
  "int k < max_retries \<Longrightarrow> (\<forall>j<k. \<exists>e. attempts j = Some e \<and> e \<noteq> SMTPAuthenticationError)
     \<Longrightarrow> send_loop max_retries attempts 0
           = (backoff k @ fst (send_loop max_retries attempts k), snd (send_loop max_retries attempts k))"
proof (induction k)
  case 0
  then show ?case by (simp add: backoff_def)
next
  case (Suc k)
  then obtain e where e: "attempts k = Some e" "e \<noteq> SMTPAuthenticationError" by auto
  have lt: "int k < max_retries - 1" using Suc.prems(1) by simp
  have "send_loop max_retries attempts 0
          = (backoff k @ fst (send_loop max_retries attempts k), snd (send_loop max_retries attempts k))"
    using Suc by simp
  then show ?case
    using send_loop_retry [of k max_retries attempts e] lt e by (simp add: backoff_Suc)
qed

text \<open>
  Claim C6: let the report be non-empty and its artifact written and attached, let
  attempts \<open>0\<close> to \<open>k - 1\<close> have failed with errors other than
  \<open>SMTPAuthenticationError\<close>, and let attempt \<open>k\<close> be within the maximum. If attempt \<open>k\<close>
  fails with \<open>SMTPAuthenticationError\<close>, it is the last attempt and the result is \<open>False\<close>. If
  it fails with any other error, then either it was not the last one allowed and attempt
  \<open>k + 1\<close> follows after a sleep of \<open>2 ^ k\<close> seconds, or it was the last one allowed and
  the result is \<open>False\<close>.
\<close>

theorem send_retry_policy:
  assumes "dataframe \<noteq> []"
    and "snd (write_report cfg out) = None"
    and "compose out = None"
    and "int k < MAX_RETRIES cfg"
    and "\<forall>j<k. \<exists>e. smtp out j = Some e \<and> e \<noteq> SMTPAuthenticationError"
  shows
    "(smtp out k = Some SMTPAuthenticationError \<longrightarrow>
        send_consolidated_report cfg out dataframe
          = (fst (write_report cfg out) @ backoff k @ [SmtpSend k], False))
     \<and> ((\<exists>e. smtp out k = Some e \<and> e \<noteq> SMTPAuthenticationError) \<and> int k < MAX_RETRIES cfg - 1 \<longrightarrow>
        (\<exists>rest. fst (send_consolidated_report cfg out dataframe)
           = fst (write_report cfg out) @ backoff k @ [SmtpSend k, Sleep (2 ^ k), SmtpSend (k + 1)] @ rest))
     \<and> ((\<exists>e. smtp out k = Some e \<and> e \<noteq> SMTPAuthenticationError) \<and> int k = MAX_RETRIES cfg - 1 \<longrightarrow>
        send_consolidated_report cfg out dataframe
          = (fst (write_report cfg out) @ backoff k @ [SmtpSend k], False))"
proof -
  let ?loop = "send_loop (MAX_RETRIES cfg) (smtp out)"
  have run: "send_consolidated_report cfg out dataframe
               = (fst (write_report cfg out) @ fst (?loop 0), snd (?loop 0))"
    using assms(1-3) by (simp add: send_consolidated_report_def Let_def)
  have pre: "?loop 0 = (backoff k @ fst (?loop k), snd (?loop k))"
    using send_loop_prefix [OF assms(4,5)] .
  show ?thesis
  proof (intro conjI impI)
    assume "smtp out k = Some SMTPAuthenticationError"
    then show "send_consolidated_report cfg out dataframe
          = (fst (write_report cfg out) @ backoff k @ [SmtpSend k], False)"
      using run pre send_loop_auth [of k "MAX_RETRIES cfg" "smtp out"] assms(4) by simp
  next
    assume a: "(\<exists>e. smtp out k = Some e \<and> e \<noteq> SMTPAuthenticationError) \<and> int k < MAX_RETRIES cfg - 1"
    then obtain e where e: "smtp out k = Some e" "e \<noteq> SMTPAuthenticationError" by auto
    from a have lt: "int k < MAX_RETRIES cfg - 1" by simp
    then have "int (k + 1) < MAX_RETRIES cfg" by simp
    then obtain rest where rest: "fst (?loop (k + 1)) = SmtpSend (k + 1) # rest"
      using send_loop_head by blast
    show "\<exists>rest. fst (send_consolidated_report cfg out dataframe)
           = fst (write_report cfg out) @ backoff k @ [SmtpSend k, Sleep (2 ^ k), SmtpSend (k + 1)] @ rest"
      using run pre send_loop_retry [of k "MAX_RETRIES cfg" "smtp out" e] lt e rest by simp
  next
    assume a: "(\<exists>e. smtp out k = Some e \<and> e \<noteq> SMTPAuthenticationError) \<and> int k = MAX_RETRIES cfg - 1"
    then obtain e where e: "smtp out k = Some e" "e \<noteq> SMTPAuthenticationError" by auto
    from a have eq: "int k = MAX_RETRIES cfg - 1" by simp
    show "send_consolidated_report cfg out dataframe
          = (fst (write_report cfg out) @ backoff k @ [SmtpSend k], False)"
      using run pre send_loop_last [of k "MAX_RETRIES cfg" "smtp out" e] eq e by simp
  qed
qed

text \<open>
  Two instances. With at most three attempts, the first fails with another error and the
  second with an authentication error: there is no third. With at most two attempts that
  both time out, the second follows the first after one second and is the last.
\<close>

theorem send_retry_policy_witness:
  "send_consolidated_report
      \<lparr>ACCOUNTS_TO_CHECK = [], SENDER_EMAIL = ''bot@x'', SENDER_PASS = ''pw'', SMTP_SERVER = ''smtp.x'',
        SMTP_PORT = 587, RECIPIENT_EMAIL = ''boss@x'', REPORT_FILENAME = ''r.xlsx'', DAYS_BACK = 7,
        IMAP_TIMEOUT = 60, MAX_RETRIES = 3\<rparr>
      \<lparr>excel_write = None, csv_write = None, compose = None,
        smtp = (\<lambda>j. if j = 0 then Some OtherException else Some SMTPAuthenticationError)\<rparr>
      [\<lparr>source_account = ''a@x'', rdate = ''d'', rsender = ''s'', rsubject = ''t''\<rparr>]
     = ([ExcelWrite ''r.xlsx'', SmtpSend 0, Sleep 1, SmtpSend 1], False)
   \<and> send_consolidated_report
      \<lparr>ACCOUNTS_TO_CHECK = [], SENDER_EMAIL = ''bot@x'', SENDER_PASS = ''pw'', SMTP_SERVER = ''smtp.x'',
        SMTP_PORT = 587, RECIPIENT_EMAIL = ''boss@x'', REPORT_FILENAME = ''r.xlsx'', DAYS_BACK = 7,
        IMAP_TIMEOUT = 60, MAX_RETRIES = 2\<rparr>
      \<lparr>excel_write = Some OtherException, csv_write = None, compose = None,
        smtp = (\<lambda>j. Some TimeoutError)\<rparr>
      [\<lparr>source_account = ''a@x'', rdate = ''d'', rsender = ''s'', rsubject = ''t''\<rparr>]
     = ([ExcelWrite ''r.xlsx'', CsvWrite ''r.xlsx'', SmtpSend 0, Sleep 1, SmtpSend 1], False)"
  using send_retry_policy [of
      "[\<lparr>source_account = ''a@x'', rdate = ''d'', rsender = ''s'', rsubject = ''t''\<rparr>]"
      "\<lparr>ACCOUNTS_TO_CHECK = [], SENDER_EMAIL = ''bot@x'', SENDER_PASS = ''pw'', SMTP_SERVER = ''smtp.x'',
        SMTP_PORT = 587, RECIPIENT_EMAIL = ''boss@x'', REPORT_FILENAME = ''r.xlsx'', DAYS_BACK = 7,
        IMAP_TIMEOUT = 60, MAX_RETRIES = 3\<rparr>"
      "\<lparr>excel_write = None, csv_write = None, compose = None,
        smtp = (\<lambda>j. if j = 0 then Some OtherException else Some SMTPAuthenticationError)\<rparr>" 1]
    send_retry_policy [of
      "[\<lparr>source_account = ''a@x'', rdate = ''d'', rsender = ''s'', rsubject = ''t''\<rparr>]"
      "\<lparr>ACCOUNTS_TO_CHECK = [], SENDER_EMAIL = ''bot@x'', SENDER_PASS = ''pw'', SMTP_SERVER = ''smtp.x'',
        SMTP_PORT = 587, RECIPIENT_EMAIL = ''boss@x'', REPORT_FILENAME = ''r.xlsx'', DAYS_BACK = 7,
        IMAP_TIMEOUT = 60, MAX_RETRIES = 2\<rparr>"
      "\<lparr>excel_write = Some OtherException, csv_write = None, compose = None,
        smtp = (\<lambda>j. Some TimeoutError)\<rparr>" 1]
  by (simp add: report_defs)

subsection \<open>An empty report\<close>

lemma fetch_from_imap_quiet:
  "\<not> list_ex is_output (fst (fetch_from_imap max_retries days L account_config srv k))"
proof (induction max_retries days L account_config srv k rule: fetch_from_imap.induct)
  case (1 max_retries days L account_config srv retry_count)
  show ?case
  proof (cases "\<exists>user pwd host. account_config ''email'' = Some user \<and> account_config ''password'' = Some pwd
                  \<and> account_config ''server'' = Some host
                  \<and> snd (imap_attempt days L user (srv retry_count)) = Some IMAP4_error \<and> int retry_count < max_retries")
    case True
    then obtain user pwd host where k: "account_config ''email'' = Some user"
        "account_config ''password'' = Some pwd" "account_config ''server'' = Some host"
        "snd (imap_attempt days L user (srv retry_count)) = Some IMAP4_error" "int retry_count < max_retries"
      by blast
    have "\<not> list_ex is_output (fst (fetch_from_imap max_retries days L account_config srv (retry_count + 1)))"
      using "1.IH" [of user pwd host] k by (simp add: subscript_def)
    then show ?thesis
      using k by (subst fetch_from_imap.simps) (simp add: subscript_def Let_def)
  next
    case False
    then show ?thesis
      by (subst fetch_from_imap.simps) (auto simp: subscript_def Let_def split: option.splits)
  qed
qed

lemma fetch_from_pop3_quiet:
  "\<not> list_ex is_output (fst (fetch_from_pop3 max_retries days L account_config srv k))"
proof (induction max_retries days L account_config srv k rule: fetch_from_pop3.induct)
  case (1 max_retries days L account_config srv retry_count)
  show ?case
  proof (cases "\<exists>user pwd host. account_config ''email'' = Some user \<and> account_config ''password'' = Some pwd
                  \<and> account_config ''server'' = Some host
                  \<and> snd (pop3_attempt days L user (srv retry_count)) = Some error_proto \<and> int retry_count < max_retries")
    case True
    then obtain user pwd host where k: "account_config ''email'' = Some user"
        "account_config ''password'' = Some pwd" "account_config ''server'' = Some host"
        "snd (pop3_attempt days L user (srv retry_count)) = Some error_proto" "int retry_count < max_retries"
      by blast
    have "\<not> list_ex is_output (fst (fetch_from_pop3 max_retries days L account_config srv (retry_count + 1)))"
      using "1.IH" [of user pwd host] k by (simp add: subscript_def)
    then show ?thesis
      using k by (subst fetch_from_pop3.simps) (simp add: subscript_def Let_def)
  next
    case False
    then show ?thesis
      by (subst fetch_from_pop3.simps) (auto simp: subscript_def Let_def split: option.splits)
  qed
qed

lemma fetch_from_account_quiet:
  "\<not> list_ex is_output (fst (fetch_from_account max_retries days L account_config srv k))"
  by (auto simp: fetch_from_account_def Let_def fetch_from_imap_quiet fetch_from_pop3_quiet split: sum.splits)

lemma collect_quiet: "\<not> list_ex is_output (fst (collect cfg L servers idx accts))"
proof (induction accts arbitrary: idx)
  case Nil
  then show ?case by simp
next
  case (Cons acct rest)
  then show ?case
    using fetch_from_account_quiet [of "MAX_RETRIES cfg" "DAYS_BACK cfg" L acct "servers idx" 0]
    by (auto simp: Let_def split: sum.splits)
qed

text \<open>
  Claim C5: \<open>send_consolidated_report\<close> on an empty data frame returns \<open>False\<close> and does
  nothing: no artifact is written and no send is attempted. When the main loop collects
  no record, the main program writes no artifact and attempts no send; if it got as far
  as the loop, it exits with code \<open>0\<close> having done nothing but the fetches.
\<close>

theorem empty_report_not_sent:
  "send_consolidated_report cfg out [] = ([], False)
   \<and> (snd (collect cfg L servers 0 (ACCOUNTS_TO_CHECK cfg)) = Inr [] \<longrightarrow>
        \<not> list_ex is_output (fst (main cfg L servers out))
        \<and> (SENDER_EMAIL cfg \<noteq> [] \<and> SENDER_PASS cfg \<noteq> [] \<and> any_password (ACCOUNTS_TO_CHECK cfg) = Inr True \<longrightarrow>
             main cfg L servers out = (fst (collect cfg L servers 0 (ACCOUNTS_TO_CHECK cfg)), Inr 0)))"
proof (intro conjI impI)
  show "send_consolidated_report cfg out [] = ([], False)"
    by (simp add: send_consolidated_report_def)
next
  assume c: "snd (collect cfg L servers 0 (ACCOUNTS_TO_CHECK cfg)) = Inr []"
  show "\<not> list_ex is_output (fst (main cfg L servers out))"
    using c collect_quiet [of cfg L servers 0 "ACCOUNTS_TO_CHECK cfg"]
    by (auto simp: main_def Let_def split: sum.splits bool.splits)
next
  assume c: "snd (collect cfg L servers 0 (ACCOUNTS_TO_CHECK cfg)) = Inr []"
    and ok: "SENDER_EMAIL cfg \<noteq> [] \<and> SENDER_PASS cfg \<noteq> [] \<and> any_password (ACCOUNTS_TO_CHECK cfg) = Inr True"
  from ok have "ACCOUNTS_TO_CHECK cfg \<noteq> []" by auto
  with c ok show "main cfg L servers out = (fst (collect cfg L servers 0 (ACCOUNTS_TO_CHECK cfg)), Inr 0)"
    by (simp add: main_def Let_def)
qed

text \<open>
  An instance: one IMAP account whose server times out. The program connects once and
  exits with code \<open>0\<close>.
\<close>

theorem empty_report_not_sent_witness:
  "main \<lparr>ACCOUNTS_TO_CHECK = [[''email'' \<mapsto> ''a@x'', ''password'' \<mapsto> ''pw'', ''server'' \<mapsto> ''mail.x'', ''protocol'' \<mapsto> ''IMAP'']],
          SENDER_EMAIL = ''bot@x'', SENDER_PASS = ''pw'', SMTP_SERVER = ''smtp.x'', SMTP_PORT = 587,
          RECIPIENT_EMAIL = ''boss@x'', REPORT_FILENAME = ''r.xlsx'', DAYS_BACK = 7, IMAP_TIMEOUT = 60,
          MAX_RETRIES = 3\<rparr>
        \<lparr>decode_header = (\<lambda>h. Inr h), parsedate_to_datetime = (\<lambda>s. Inl OtherException)\<rparr>
        (\<lambda>i. \<lparr>imap_sessions = (\<lambda>k. \<lparr>imap_now = 0, imap_open = Some TimeoutError, imap_login = None,
                    imap_select = Inr ''OK'', imap_search = Inr (''OK'', []),
                    imap_fetch = (\<lambda>i. Inl OtherException), imap_close = None, imap_logout = None\<rparr>),
               pop3_sessions = (\<lambda>k. \<lparr>pop3_now = 0, pop3_open = None, pop3_user = None, pop3_pass = None,
                    pop3_list = Inr 0, pop3_retr = (\<lambda>i. Inl OtherException), pop3_quit = None\<rparr>)\<rparr>)
        \<lparr>excel_write = None, csv_write = None, compose = None, smtp = (\<lambda>j. None)\<rparr>
     = ([MailConnect ''mail.x''], Inr 0)"
  using empty_report_not_sent [of
      "\<lparr>ACCOUNTS_TO_CHECK = [[''email'' \<mapsto> ''a@x'', ''password'' \<mapsto> ''pw'', ''server'' \<mapsto> ''mail.x'', ''protocol'' \<mapsto> ''IMAP'']],
          SENDER_EMAIL = ''bot@x'', SENDER_PASS = ''pw'', SMTP_SERVER = ''smtp.x'', SMTP_PORT = 587,
          RECIPIENT_EMAIL = ''boss@x'', REPORT_FILENAME = ''r.xlsx'', DAYS_BACK = 7, IMAP_TIMEOUT = 60,
          MAX_RETRIES = 3\<rparr>"
      "\<lparr>excel_write = None, csv_write = None, compose = None, smtp = (\<lambda>j. None)\<rparr>"
      "\<lparr>decode_header = (\<lambda>h. Inr h), parsedate_to_datetime = (\<lambda>s. Inl OtherException)\<rparr>"
      "\<lambda>i. \<lparr>imap_sessions = (\<lambda>k. \<lparr>imap_now = 0, imap_open = Some TimeoutError, imap_login = None,
                    imap_select = Inr ''OK'', imap_search = Inr (''OK'', []),
                    imap_fetch = (\<lambda>i. Inl OtherException), imap_close = None, imap_logout = None\<rparr>),
               pop3_sessions = (\<lambda>k. \<lparr>pop3_now = 0, pop3_open = None, pop3_user = None, pop3_pass = None,
                    pop3_list = Inr 0, pop3_retr = (\<lambda>i. Inl OtherException), pop3_quit = None\<rparr>)\<rparr>"]
  by (simp add: report_defs fetch_from_imap.simps)

end
